theory Spec2Isabelle
  imports Complex_Main "HOL-Library.Log_Nat"
begin

section \<open>Numbers\<close>

text \<open>
  A TypeScript \<^verbatim>\<open>number\<close> is an IEEE 754 double: a finite value, held here as the real
  number it denotes, one of the two infinities, or NaN. The two zeros are one value: the
  code modelled tests a zero only for being zero and never divides by one.
\<close>

datatype number = Finite real | Infinity | NegInfinity | NaN

text \<open>
  Rounding to the nearest binary floating-point value, ties to even, for a format with
  \<open>p\<close> bits of precision and exponents from \<open>emin\<close> to \<open>emax\<close>: below \<open>2 ^ emin\<close>
  the values are the multiples of \<open>2 ^ (emin - (p - 1))\<close>, and a result of magnitude
  \<open>2 ^ (emax + 1)\<close> or more is an infinity.
\<close>

definition pow2 :: "int \<Rightarrow> real" where
  "pow2 k = (if 0 \<le> k then 2 ^ nat k else 1 / 2 ^ nat (- k))"

definition exponent :: "real \<Rightarrow> int" where
  "exponent r = \<lfloor>log 2 \<bar>r\<bar>\<rfloor>"

definition round_half_even :: "real \<Rightarrow> int" where
  "round_half_even x =
     (let f = \<lfloor>x\<rfloor>
      in if x - of_int f < 1 / 2 then f
         else if 1 / 2 < x - of_int f then f + 1
         else if even f then f else f + 1)"

definition round_binary :: "nat \<Rightarrow> int \<Rightarrow> int \<Rightarrow> real \<Rightarrow> number" where
  "round_binary p emin emax r =
     (if r = 0 then Finite 0
      else let q = max (exponent r) emin - (int p - 1);
               v = of_int (round_half_even (r / pow2 q)) * pow2 q
           in if pow2 (emax + 1) \<le> \<bar>v\<bar>
              then (if 0 < r then Infinity else NegInfinity)
              else Finite v)"

definition round_double :: "real \<Rightarrow> number" where
  "round_double r = round_binary 53 (- 1022) 1023 r"

definition round_float32 :: "real \<Rightarrow> number" where
  "round_float32 r = round_binary 24 (- 126) 127 r"

text \<open>
  Storing a number into a \<^verbatim>\<open>Float32Array\<close> rounds it to single precision and reading
  it back gives that value (\<^verbatim>\<open>Math.fround\<close>).
\<close>

primrec fround :: "number \<Rightarrow> number" where
  "fround (Finite r) = round_float32 r"
| "fround Infinity = Infinity"
| "fround NegInfinity = NegInfinity"
| "fround NaN = NaN"

text \<open>
  The operators \<^verbatim>\<open>+\<close>, \<^verbatim>\<open>-\<close>, \<^verbatim>\<open>*\<close> and \<^verbatim>\<open>/\<close> on doubles: the exact result,
  rounded; NaN when an operand is NaN, for the difference of equal infinities, for zero
  times an infinity and for the quotient of two infinities or of two zeros. Where a
  result depends on the sign of a zero divisor, the zero is taken as positive.
\<close>

primrec double_neg :: "number \<Rightarrow> number" where
  "double_neg (Finite r) = Finite (- r)"
| "double_neg Infinity = NegInfinity"
| "double_neg NegInfinity = Infinity"
| "double_neg NaN = NaN"

fun double_add :: "number \<Rightarrow> number \<Rightarrow> number" where
  "double_add NaN y = NaN"
| "double_add x NaN = NaN"
| "double_add (Finite a) (Finite b) = round_double (a + b)"
| "double_add Infinity NegInfinity = NaN"
| "double_add NegInfinity Infinity = NaN"
| "double_add Infinity y = Infinity"
| "double_add NegInfinity y = NegInfinity"
| "double_add (Finite a) y = y"

definition double_sub :: "number \<Rightarrow> number \<Rightarrow> number" where
  "double_sub x y = double_add x (double_neg y)"

fun double_mul :: "number \<Rightarrow> number \<Rightarrow> number" where
  "double_mul NaN y = NaN"
| "double_mul x NaN = NaN"
| "double_mul (Finite a) (Finite b) = round_double (a * b)"
| "double_mul (Finite a) y = (if a = 0 then NaN else if 0 < a then y else double_neg y)"
| "double_mul x (Finite b) = (if b = 0 then NaN else if 0 < b then x else double_neg x)"
| "double_mul x y = (if x = y then Infinity else NegInfinity)"

fun double_div :: "number \<Rightarrow> number \<Rightarrow> number" where
  "double_div NaN y = NaN"
| "double_div x NaN = NaN"
| "double_div (Finite a) (Finite b) =
     (if b = 0 then (if a = 0 then NaN else if 0 < a then Infinity else NegInfinity)
      else round_double (a / b))"
| "double_div (Finite a) y = Finite 0"
| "double_div x (Finite b) = (if 0 \<le> b then x else double_neg x)"
| "double_div x y = NaN"

text \<open>
  From here on \<open>0\<close>, \<open>1\<close>, \<open>+\<close>, \<open>-\<close>, \<open>*\<close> and \<open>/\<close> on numbers are the doubles zero and
  one and these four operations, so that an expression of the source reads as it does
  there and means what it means there.
\<close>

instantiation number :: "{zero, one, plus, minus, times, inverse}"
begin

definition zero_number :: number where
  "zero_number = Finite 0"

definition one_number :: number where
  "one_number = Finite 1"

definition plus_number :: "number \<Rightarrow> number \<Rightarrow> number" where
  "plus_number = double_add"

definition minus_number :: "number \<Rightarrow> number \<Rightarrow> number" where
  "minus_number = double_sub"

definition times_number :: "number \<Rightarrow> number \<Rightarrow> number" where
  "times_number = double_mul"

definition divide_number :: "number \<Rightarrow> number \<Rightarrow> number" where
  "divide_number = double_div"

definition inverse_number :: "number \<Rightarrow> number" where
  "inverse_number x = double_div (Finite 1) x"

instance ..

end

text \<open>The numbers that \<^verbatim>\<open>!\<close> takes to \<^verbatim>\<open>true\<close>: zero and NaN.\<close>

definition falsy :: "number \<Rightarrow> bool" where
  "falsy x \<longleftrightarrow> x = Finite 0 \<or> x = NaN"

section \<open>Data model of the renderer\<close>

text \<open>
  The renderer of \<^verbatim>\<open>src/graphics/Renderer.ts\<close> is embedded by explicit state passing.
  An object is modelled by its reference; two references are equal exactly when they
  denote the same object, which is what the source's \<^verbatim>\<open>!=\<close> on objects tests.
\<close>

type_synonym ref = nat

type_synonym Shader = ref
type_synonym VertexBuffer = ref
type_synonym UniformBuffer = ref
type_synonym WebGLTexture = ref

text \<open>
  An argument of object type whose fields \<^verbatim>\<open>draw\<close> reads is the reference together
  with the values of those fields at the time of the call:
  \<^verbatim>\<open>index_buffer.indices.BYTES_PER_ELEMENT\<close> and \<^verbatim>\<open>mat.shader\<close>. The element size of
  a typed array is a small whole number that is only compared; it is held as a real.
\<close>

record IndexBuffer =
  index_buffer_ref :: ref
  BYTES_PER_ELEMENT :: real

record Material =
  material_ref :: ref
  shader :: Shader

text \<open>
  A matrix of gl-matrix is an array of sixteen or of nine entries, in the order of the
  array. The matrices of the program have numbers as entries; matrices of real numbers
  serve to state what a product or an inverse is.
\<close>

datatype 'a matrix4 = Mat4 'a 'a 'a 'a 'a 'a 'a 'a 'a 'a 'a 'a 'a 'a 'a 'a

datatype 'a matrix3 = Mat3 'a 'a 'a 'a 'a 'a 'a 'a 'a

type_synonym mat4 = "number matrix4"
type_synonym mat3 = "number matrix3"

text \<open>
  What is handed to \<^verbatim>\<open>UniformBuffer.set\<close>: a matrix, or \<^verbatim>\<open>null\<close>, which
  \<^verbatim>\<open>mat4.invert(temp, view)!\<close> can be.
\<close>

datatype uniform_value = UMat4 mat4 | UMat3 mat3 | UNull

text \<open>
  \<^verbatim>\<open>gl.UNSIGNED_SHORT\<close> and \<^verbatim>\<open>gl.UNSIGNED_INT\<close> are two different constants of the
  WebGL context.
\<close>

datatype GLenum = UNSIGNED_SHORT | UNSIGNED_INT

text \<open>
  Modelled from the spec: the WebGL context and the classes \<^verbatim>\<open>Material\<close>,
  \<^verbatim>\<open>VertexBuffer\<close>, \<^verbatim>\<open>IndexBuffer\<close>, \<^verbatim>\<open>UniformBuffer\<close>, \<^verbatim>\<open>Texture2D\<close>,
  \<^verbatim>\<open>TextureCubeMap\<close> and the subclasses of \<^verbatim>\<open>Shader\<close> are not among the sources;
  the spec takes shader programs, buffer handles and material descriptors as opaque
  inputs and the rest as external collaborators. A call on one of them is recorded, with
  the values of its arguments at the time of the call, in the order in which the
  renderer makes it, and is taken to return normally. The field \<^verbatim>\<open>gl\<close> of the
  renderer is the list of the calls made so far. Setting a value in a uniform block is
  the call \<^verbatim>\<open>set\<close> of the block, and uploading the block is its call \<^verbatim>\<open>update\<close>.
\<close>

datatype call =
    Shader_use Shader
  | Material_activate ref
  | VertexBuffer_bindBuffers VertexBuffer
  | IndexBuffer_bind ref
  | drawElements number number GLenum number
  | drawArrays number number number
  | gl_viewport number number number number
  | UniformBuffer_set UniformBuffer string uniform_value
  | UniformBuffer_update UniformBuffer
  | UniformBuffer_new UniformBuffer "Shader option" string
  | UniformBuffer_bindShader UniformBuffer Shader number
  | Texture2D_new WebGLTexture
  | TextureCubeMap_new WebGLTexture
  | Shader_new Shader string string string

text \<open>
  \<open>Shader_new s c v f\<close> is \<^verbatim>\<open>new c(gl, v, f)\<close> returning the object \<open>s\<close>;
  \<open>UniformBuffer_new u s n\<close> is \<^verbatim>\<open>new UniformBuffer(s, n)\<close> returning \<open>u\<close>;
  \<open>Texture2D_new t\<close> and \<open>TextureCubeMap_new t\<close> are the two texture constructors,
  with \<open>t\<close> the \<^verbatim>\<open>texture_id\<close> of the new object. The arguments of the other calls
  are those of the source, after the object the call is made on.
\<close>

text \<open>
  What a call can throw: an \<^verbatim>\<open>Error\<close> object with its message, a \<^verbatim>\<open>TypeError\<close> of
  the runtime, or a bare string.
\<close>

datatype error = Error string | TypeError | Thrown string

text \<open>
  The fields \<^verbatim>\<open>x\<close>, \<^verbatim>\<open>y\<close>, \<^verbatim>\<open>width\<close> and \<^verbatim>\<open>height\<close> of
  \<^verbatim>\<open>ViewportDimensions\<close> carry the prefix \<open>vp\<close> here.
\<close>

record ViewportDimensions =
  vp_x :: number
  vp_y :: number
  vp_width :: number
  vp_height :: number

text \<open>
  The counters of \<^verbatim>\<open>RendererStats\<close> that \<^verbatim>\<open>Renderer.ts\<close> reads and writes.
\<close>

record RendererStats =
  shader_bind_count :: number
  material_bind_count :: number
  vertex_buffer_bind_count :: number
  index_buffer_bind_count :: number
  index_draw_count :: number
  vertex_draw_count :: number
  draw_calls :: number

text \<open>
  Modelled from the spec: the class \<^verbatim>\<open>RendererStats\<close> (its constructor and its method
  \<^verbatim>\<open>reset\<close>) is not among the sources. A new object has every counter at zero, and
  \<^verbatim>\<open>reset\<close> zeroes every counter.
\<close>

definition RendererStats_new :: RendererStats where
  "RendererStats_new =
     \<lparr>shader_bind_count = 0, material_bind_count = 0, vertex_buffer_bind_count = 0,
      index_buffer_bind_count = 0, index_draw_count = 0, vertex_draw_count = 0,
      draw_calls = 0\<rparr>"

definition RendererStats_reset :: "RendererStats \<Rightarrow> RendererStats" where
  "RendererStats_reset s =
     s\<lparr>shader_bind_count := 0, material_bind_count := 0, vertex_buffer_bind_count := 0,
       index_buffer_bind_count := 0, index_draw_count := 0, vertex_draw_count := 0,
       draw_calls := 0\<rparr>"

text \<open>
  The state outside the instance: the variables of the module (\<^verbatim>\<open>temp\<close>,
  \<^verbatim>\<open>modelview_matrix\<close>, \<^verbatim>\<open>normalview_matrix\<close>, which is declared
  \<^verbatim>\<open>mat3 | null\<close>, and \<^verbatim>\<open>mvp_matrix\<close>), the static fields of the class, and the
  reference that the next \<^verbatim>\<open>new\<close> returns. The \<^verbatim>\<open>Map\<close> of shaders keeps its
  insertion order and is an association list.
\<close>

record program =
  temp :: mat4
  modelview_matrix :: mat4
  normalview_matrix :: "mat3 option"
  mvp_matrix :: mat4
  EMPTY_TEXTURE :: "WebGLTexture option"
  EMPTY_CUBE_TEXTURE :: "WebGLTexture option"
  BRDF_LUT_TEXTURE :: "WebGLTexture option"
  Shaders :: "(string \<times> Shader) list"
  next_ref :: ref

record Renderer = program +
  gl :: "call list"
  current_vertex_buffer :: "VertexBuffer option"
  current_index_buffer :: "ref option"
  current_material :: "ref option"
  current_shader :: "Shader option"
  uboPerFrameBlock :: UniformBuffer
  uboPerModelBlock :: UniformBuffer
  stats :: RendererStats
  viewport :: ViewportDimensions

text \<open>The calls made between a state and a later one.\<close>

definition issued :: "Renderer \<Rightarrow> Renderer \<Rightarrow> call list" where
  "issued this this' = drop (length (gl this)) (gl this')"

section \<open>Renderer.draw\<close>

text \<open>
  The first four statements of \<^verbatim>\<open>draw\<close>, in the order of the source: each one
  compares an argument with the tracked binding and, when they differ, stores the
  argument, makes the bind call and counts it.
\<close>

definition draw_bindings ::
  "IndexBuffer option \<Rightarrow> VertexBuffer \<Rightarrow> Material option \<Rightarrow> Renderer \<Rightarrow> Renderer" where
  "draw_bindings index_buffer vertex_buffer mat this =
    (let this1 =
           (case mat of
              Some m \<Rightarrow>
                if Some (shader m) \<noteq> current_shader this
                then this\<lparr>current_shader := Some (shader m),
                          gl := gl this @ [Shader_use (shader m)],
                          stats := (stats this)\<lparr>shader_bind_count :=
                                                  shader_bind_count (stats this) + 1\<rparr>\<rparr>
                else this
            | None \<Rightarrow> this);
         this2 =
           (case mat of
              Some m \<Rightarrow>
                if Some (material_ref m) \<noteq> current_material this1
                then this1\<lparr>current_material := Some (material_ref m),
                           gl := gl this1 @ [Material_activate (material_ref m)],
                           stats := (stats this1)\<lparr>material_bind_count :=
                                                   material_bind_count (stats this1) + 1\<rparr>\<rparr>
                else this1
            | None \<Rightarrow> this1);
         this3 =
           (if Some vertex_buffer \<noteq> current_vertex_buffer this2
            then this2\<lparr>current_vertex_buffer := Some vertex_buffer,
                       gl := gl this2 @ [VertexBuffer_bindBuffers vertex_buffer],
                       stats := (stats this2)\<lparr>vertex_buffer_bind_count :=
                                               vertex_buffer_bind_count (stats this2) + 1\<rparr>\<rparr>
            else this2)
     in case index_buffer of
          Some ib \<Rightarrow>
            if Some (index_buffer_ref ib) \<noteq> current_index_buffer this3
            then this3\<lparr>current_index_buffer := Some (index_buffer_ref ib),
                       gl := gl this3 @ [IndexBuffer_bind (index_buffer_ref ib)],
                       stats := (stats this3)\<lparr>index_buffer_bind_count :=
                                               index_buffer_bind_count (stats this3) + 1\<rparr>\<rparr>
            else this3
        | None \<Rightarrow> this3)"

text \<open>
  The whole of \<^verbatim>\<open>draw\<close>: the bindings, then the draw command. The result is the
  error thrown, if any, and the state that the call leaves behind in either case.
\<close>

definition draw ::
  "number \<Rightarrow> number \<Rightarrow> number \<Rightarrow> IndexBuffer option \<Rightarrow> VertexBuffer \<Rightarrow> Material option
     \<Rightarrow> Renderer \<Rightarrow> (error + unit) \<times> Renderer" where
  "draw draw_mode count offset index_buffer vertex_buffer mat this =
    (let this4 = draw_bindings index_buffer vertex_buffer mat this
     in case index_buffer of
          Some ib \<Rightarrow>
            if BYTES_PER_ELEMENT ib = 2
            then (Inr (),
                  this4\<lparr>gl := gl this4 @ [drawElements draw_mode count UNSIGNED_SHORT offset],
                        stats := (stats this4)\<lparr>index_draw_count :=
                                                  index_draw_count (stats this4) + count,
                                                draw_calls := draw_calls (stats this4) + 1\<rparr>\<rparr>)
            else if BYTES_PER_ELEMENT ib = 4
            then (Inr (),
                  this4\<lparr>gl := gl this4 @ [drawElements draw_mode count UNSIGNED_INT offset],
                        stats := (stats this4)\<lparr>index_draw_count :=
                                                  index_draw_count (stats this4) + count,
                                                draw_calls := draw_calls (stats this4) + 1\<rparr>\<rparr>)
            else (Inl (Error ''Unknown index buffer type''), this4)
        | None \<Rightarrow>
            (Inr (),
             this4\<lparr>gl := gl this4 @ [drawArrays draw_mode offset count],
                   stats := (stats this4)\<lparr>vertex_draw_count :=
                                             vertex_draw_count (stats this4) + count,
                                           draw_calls := draw_calls (stats this4) + 1\<rparr>\<rparr>))"

text \<open>The commands that make the GPU draw.\<close>

fun is_draw_command :: "call \<Rightarrow> bool" where
  "is_draw_command (drawElements m c t off) = True"
| "is_draw_command (drawArrays m off c) = True"
| "is_draw_command _ = False"

section \<open>Viewport, statistics and saved bindings\<close>

definition setViewport :: "number \<Rightarrow> number \<Rightarrow> number \<Rightarrow> number \<Rightarrow> Renderer \<Rightarrow> Renderer" where
  "setViewport x y width height this =
     this\<lparr>viewport := \<lparr>vp_x = x, vp_y = y, vp_width = width, vp_height = height\<rparr>,
          gl := gl this @ [gl_viewport x y width height]\<rparr>"

definition resetViewport :: "Renderer \<Rightarrow> Renderer" where
  "resetViewport this =
     this\<lparr>gl := gl this @ [gl_viewport (vp_x (viewport this)) (vp_y (viewport this))
                               (vp_width (viewport this)) (vp_height (viewport this))]\<rparr>"

definition resetSaveBindings :: "Renderer \<Rightarrow> Renderer" where
  "resetSaveBindings this =
     this\<lparr>current_vertex_buffer := None, current_index_buffer := None,
          current_material := None, current_shader := None\<rparr>"

definition resetStats :: "Renderer \<Rightarrow> Renderer" where
  "resetStats this =
     this\<lparr>stats := RendererStats_reset (stats this),
          current_shader := None, current_material := None\<rparr>"

section \<open>The matrix functions of gl-matrix\<close>

text \<open>
  The renderer calls four functions of the library gl-matrix. They are written here as
  the library computes them: entry by entry, in the order of the source, each operation
  on doubles, and each entry rounded to single precision when it is stored into the
  result, which is a \<^verbatim>\<open>Float32Array\<close> made by \<^verbatim>\<open>mat4.create\<close> or \<^verbatim>\<open>mat3.create\<close>
  wherever the renderer calls them. The array of a matrix is in column-major order.
  \<^verbatim>\<open>mat4.create\<close> and \<^verbatim>\<open>mat3.create\<close> return identity matrices.
\<close>

definition mat4_create :: mat4 where
  "mat4_create = Mat4 1 0 0 0  0 1 0 0  0 0 1 0  0 0 0 1"

definition mat3_create :: mat3 where
  "mat3_create = Mat3 1 0 0  0 1 0  0 0 1"

primrec mat4_mul :: "mat4 \<Rightarrow> mat4 \<Rightarrow> mat4" where
  "mat4_mul (Mat4 a00 a01 a02 a03 a10 a11 a12 a13 a20 a21 a22 a23 a30 a31 a32 a33) b =
    (case b of Mat4 b00 b01 b02 b03 b10 b11 b12 b13 b20 b21 b22 b23 b30 b31 b32 b33 \<Rightarrow>
     Mat4 (fround (b00 * a00 + b01 * a10 + b02 * a20 + b03 * a30))
          (fround (b00 * a01 + b01 * a11 + b02 * a21 + b03 * a31))
          (fround (b00 * a02 + b01 * a12 + b02 * a22 + b03 * a32))
          (fround (b00 * a03 + b01 * a13 + b02 * a23 + b03 * a33))
          (fround (b10 * a00 + b11 * a10 + b12 * a20 + b13 * a30))
          (fround (b10 * a01 + b11 * a11 + b12 * a21 + b13 * a31))
          (fround (b10 * a02 + b11 * a12 + b12 * a22 + b13 * a32))
          (fround (b10 * a03 + b11 * a13 + b12 * a23 + b13 * a33))
          (fround (b20 * a00 + b21 * a10 + b22 * a20 + b23 * a30))
          (fround (b20 * a01 + b21 * a11 + b22 * a21 + b23 * a31))
          (fround (b20 * a02 + b21 * a12 + b22 * a22 + b23 * a32))
          (fround (b20 * a03 + b21 * a13 + b22 * a23 + b23 * a33))
          (fround (b30 * a00 + b31 * a10 + b32 * a20 + b33 * a30))
          (fround (b30 * a01 + b31 * a11 + b32 * a21 + b33 * a31))
          (fround (b30 * a02 + b31 * a12 + b32 * a22 + b33 * a32))
          (fround (b30 * a03 + b31 * a13 + b32 * a23 + b33 * a33)))"

text \<open>
  The determinant as \<^verbatim>\<open>mat4.invert\<close> and \<^verbatim>\<open>mat3.normalFromMat4\<close> compute it, in
  doubles, from the twelve products \<^verbatim>\<open>b00\<close> to \<^verbatim>\<open>b11\<close> of two-by-two minors.
\<close>

primrec mat4_determinant :: "mat4 \<Rightarrow> number" where
  "mat4_determinant (Mat4 a00 a01 a02 a03 a10 a11 a12 a13 a20 a21 a22 a23 a30 a31 a32 a33) =
     (let b00 = a00 * a11 - a01 * a10; b01 = a00 * a12 - a02 * a10;
          b02 = a00 * a13 - a03 * a10; b03 = a01 * a12 - a02 * a11;
          b04 = a01 * a13 - a03 * a11; b05 = a02 * a13 - a03 * a12;
          b06 = a20 * a31 - a21 * a30; b07 = a20 * a32 - a22 * a30;
          b08 = a20 * a33 - a23 * a30; b09 = a21 * a32 - a22 * a31;
          b10 = a21 * a33 - a23 * a31; b11 = a22 * a33 - a23 * a32
      in b00 * b11 - b01 * b10 + b02 * b09 + b03 * b08 - b04 * b07 + b05 * b06)"

text \<open>
  \<^verbatim>\<open>mat4.invert(out, a)\<close> returns \<^verbatim>\<open>null\<close>, leaving \<^verbatim>\<open>out\<close> as it was, when
  \<^verbatim>\<open>!det\<close> holds of the determinant; otherwise it fills \<^verbatim>\<open>out\<close> and returns it.
\<close>

primrec mat4_invert :: "mat4 \<Rightarrow> mat4 option" where
  "mat4_invert (Mat4 a00 a01 a02 a03 a10 a11 a12 a13 a20 a21 a22 a23 a30 a31 a32 a33) =
     (let b00 = a00 * a11 - a01 * a10; b01 = a00 * a12 - a02 * a10;
          b02 = a00 * a13 - a03 * a10; b03 = a01 * a12 - a02 * a11;
          b04 = a01 * a13 - a03 * a11; b05 = a02 * a13 - a03 * a12;
          b06 = a20 * a31 - a21 * a30; b07 = a20 * a32 - a22 * a30;
          b08 = a20 * a33 - a23 * a30; b09 = a21 * a32 - a22 * a31;
          b10 = a21 * a33 - a23 * a31; b11 = a22 * a33 - a23 * a32;
          det = b00 * b11 - b01 * b10 + b02 * b09 + b03 * b08 - b04 * b07 + b05 * b06
      in if falsy det then None
         else let det = 1 / det
              in Some (Mat4 (fround ((a11 * b11 - a12 * b10 + a13 * b09) * det))
                            (fround ((a02 * b10 - a01 * b11 - a03 * b09) * det))
                            (fround ((a31 * b05 - a32 * b04 + a33 * b03) * det))
                            (fround ((a22 * b04 - a21 * b05 - a23 * b03) * det))
                            (fround ((a12 * b08 - a10 * b11 - a13 * b07) * det))
                            (fround ((a00 * b11 - a02 * b08 + a03 * b07) * det))
                            (fround ((a32 * b02 - a30 * b05 - a33 * b01) * det))
                            (fround ((a20 * b05 - a22 * b02 + a23 * b01) * det))
                            (fround ((a10 * b10 - a11 * b08 + a13 * b06) * det))
                            (fround ((a01 * b08 - a00 * b10 - a03 * b06) * det))
                            (fround ((a30 * b04 - a31 * b02 + a33 * b00) * det))
                            (fround ((a21 * b02 - a20 * b04 - a23 * b00) * det))
                            (fround ((a11 * b07 - a10 * b09 - a12 * b06) * det))
                            (fround ((a00 * b09 - a01 * b07 + a02 * b06) * det))
                            (fround ((a31 * b01 - a30 * b03 - a32 * b00) * det))
                            (fround ((a20 * b03 - a21 * b01 + a22 * b00) * det))))"

text \<open>
  \<^verbatim>\<open>mat3.normalFromMat4(out, a)\<close> returns \<^verbatim>\<open>null\<close> when \<^verbatim>\<open>!det\<close> holds of the
  determinant of the whole four-by-four matrix, before it touches \<^verbatim>\<open>out\<close>. Otherwise
  it writes nine entries into \<^verbatim>\<open>out\<close>, which is a \<^verbatim>\<open>TypeError\<close> of the runtime when
  \<^verbatim>\<open>out\<close> is \<^verbatim>\<open>null\<close>, and returns \<^verbatim>\<open>out\<close>.
\<close>

primrec mat3_normalFromMat4 :: "mat3 option \<Rightarrow> mat4 \<Rightarrow> error + mat3 option" where
  "mat3_normalFromMat4 out
       (Mat4 a00 a01 a02 a03 a10 a11 a12 a13 a20 a21 a22 a23 a30 a31 a32 a33) =
     (let b00 = a00 * a11 - a01 * a10; b01 = a00 * a12 - a02 * a10;
          b02 = a00 * a13 - a03 * a10; b03 = a01 * a12 - a02 * a11;
          b04 = a01 * a13 - a03 * a11; b05 = a02 * a13 - a03 * a12;
          b06 = a20 * a31 - a21 * a30; b07 = a20 * a32 - a22 * a30;
          b08 = a20 * a33 - a23 * a30; b09 = a21 * a32 - a22 * a31;
          b10 = a21 * a33 - a23 * a31; b11 = a22 * a33 - a23 * a32;
          det = b00 * b11 - b01 * b10 + b02 * b09 + b03 * b08 - b04 * b07 + b05 * b06
      in if falsy det then Inr None
         else case out of
                None \<Rightarrow> Inl TypeError
              | Some _ \<Rightarrow>
                  let det = 1 / det
                  in Inr (Some (Mat3 (fround ((a11 * b11 - a12 * b10 + a13 * b09) * det))
                                     (fround ((a12 * b08 - a10 * b11 - a13 * b07) * det))
                                     (fround ((a10 * b10 - a11 * b08 + a13 * b06) * det))
                                     (fround ((a02 * b10 - a01 * b11 - a03 * b09) * det))
                                     (fround ((a00 * b11 - a02 * b08 + a03 * b07) * det))
                                     (fround ((a01 * b08 - a00 * b10 - a03 * b06) * det))
                                     (fround ((a31 * b05 - a32 * b04 + a33 * b03) * det))
                                     (fround ((a32 * b02 - a30 * b05 - a33 * b01) * det))
                                     (fround ((a30 * b04 - a31 * b02 + a33 * b00) * det)))))"

text \<open>The parts of a matrix that the normal matrix is made of.\<close>

primrec mat3_fromMat4 :: "'a matrix4 \<Rightarrow> 'a matrix3" where
  "mat3_fromMat4 (Mat4 a00 a01 a02 a03 a10 a11 a12 a13 a20 a21 a22 a23 a30 a31 a32 a33) =
     Mat3 a00 a01 a02 a10 a11 a12 a20 a21 a22"

primrec mat3_transpose :: "'a matrix3 \<Rightarrow> 'a matrix3" where
  "mat3_transpose (Mat3 a00 a01 a02 a10 a11 a12 a20 a21 a22) =
     Mat3 a00 a10 a20 a01 a11 a21 a02 a12 a22"

section \<open>Uniform blocks\<close>

text \<open>
  \<^verbatim>\<open>setPerFrameUniforms\<close>: four values are set in the per-frame block, the block is
  updated, and the statistics are reset. Both \<^verbatim>\<open>mat4.invert\<close> and \<^verbatim>\<open>mat4.mul\<close>
  write their result to the module's \<^verbatim>\<open>temp\<close>; each result is handed to \<^verbatim>\<open>set\<close>
  before the next one is computed. When \<^verbatim>\<open>mat4.invert\<close> returns \<^verbatim>\<open>null\<close> it has
  left \<^verbatim>\<open>temp\<close> as it was, and \<^verbatim>\<open>null\<close> is handed to \<^verbatim>\<open>set\<close>.
\<close>

definition setPerFrameUniforms :: "mat4 \<Rightarrow> mat4 \<Rightarrow> Renderer \<Rightarrow> Renderer" where
  "setPerFrameUniforms view proj this =
    (let this1 = this\<lparr>gl := gl this @
                   [UniformBuffer_set (uboPerFrameBlock this) ''view'' (UMat4 view)]\<rparr>;
         this2 =
           (case mat4_invert view of
              Some view_inverse \<Rightarrow>
                this1\<lparr>temp := view_inverse,
                      gl := gl this1 @
                        [UniformBuffer_set (uboPerFrameBlock this1) ''view_inverse''
                           (UMat4 view_inverse)]\<rparr>
            | None \<Rightarrow>
                this1\<lparr>gl := gl this1 @
                        [UniformBuffer_set (uboPerFrameBlock this1) ''view_inverse'' UNull]\<rparr>);
         this3 = this2\<lparr>gl := gl this2 @
                   [UniformBuffer_set (uboPerFrameBlock this2) ''projection'' (UMat4 proj)]\<rparr>;
         this4 = this3\<lparr>temp := mat4_mul proj view\<rparr>;
         this5 = this4\<lparr>gl := gl this4 @
                   [UniformBuffer_set (uboPerFrameBlock this4) ''view_projection''
                      (UMat4 (temp this4))]\<rparr>;
         this6 = this5\<lparr>gl := gl this5 @ [UniformBuffer_update (uboPerFrameBlock this5)]\<rparr>
     in resetStats this6)"

text \<open>
  \<^verbatim>\<open>setPerModelUniforms\<close>: the result of \<^verbatim>\<open>mat3.normalFromMat4\<close> is assigned to the
  module's \<^verbatim>\<open>normalview_matrix\<close> before it is tested, so after a \<^verbatim>\<open>null\<close> result
  the variable is \<^verbatim>\<open>null\<close> and is the \<^verbatim>\<open>out\<close> argument of the next call.
\<close>

definition setPerModelUniforms ::
  "mat4 \<Rightarrow> mat4 \<Rightarrow> mat4 \<Rightarrow> Renderer \<Rightarrow> (error + unit) \<times> Renderer" where
  "setPerModelUniforms model_matrix view_matrix proj_matrix this =
    (let this1 = this\<lparr>gl := gl this @
                   [UniformBuffer_set (uboPerModelBlock this) ''model'' (UMat4 model_matrix)]\<rparr>;
         this2 = this1\<lparr>modelview_matrix := mat4_mul view_matrix model_matrix\<rparr>;
         this3 = this2\<lparr>gl := gl this2 @
                   [UniformBuffer_set (uboPerModelBlock this2) ''model_view''
                      (UMat4 (modelview_matrix this2))]\<rparr>
     in case mat3_normalFromMat4 (normalview_matrix this3) (modelview_matrix this3) of
          Inl e \<Rightarrow> (Inl e, this3)
        | Inr None \<Rightarrow>
            (Inl (Error ''Determinant could not be calculated for normalview_matrix''),
             this3\<lparr>normalview_matrix := None\<rparr>)
        | Inr (Some n) \<Rightarrow>
            (let this4 = this3\<lparr>normalview_matrix := Some n\<rparr>;
                 this5 = this4\<lparr>gl := gl this4 @
                           [UniformBuffer_set (uboPerModelBlock this4) ''normal_view'' (UMat3 n)]\<rparr>;
                 this6 = this5\<lparr>mvp_matrix := mat4_mul proj_matrix (modelview_matrix this5)\<rparr>;
                 this7 = this6\<lparr>gl := gl this6 @
                           [UniformBuffer_set (uboPerModelBlock this6) ''mvp''
                              (UMat4 (mvp_matrix this6))]\<rparr>;
                 this8 = this7\<lparr>gl := gl this7 @
                           [UniformBuffer_update (uboPerModelBlock this7)]\<rparr>
             in (Inr (), this8)))"

section \<open>Shader sources and the constructor\<close>

text \<open>
  The text of a shader file stands for itself under the name of the import; a subclass
  is named by its class. The field \<^verbatim>\<open>subclass\<close> of the source is \<open>shader_subclass\<close> here.
\<close>

record ShaderSource =
  name :: string
  vert :: string
  frag :: string
  shader_subclass :: "string option"

definition ShaderSource_Basic :: ShaderSource where
  "ShaderSource_Basic =
     \<lparr>name = ''BasicShader'', vert = ''standardVert'', frag = ''basicFrag'',
      shader_subclass = Some ''BasicShader''\<rparr>"

definition ShaderSource_PBR :: ShaderSource where
  "ShaderSource_PBR =
     \<lparr>name = ''PBRShader'', vert = ''standardVert'', frag = ''pbrFrag'',
      shader_subclass = Some ''PBRShader''\<rparr>"

definition ShaderSource_NormalOnly :: ShaderSource where
  "ShaderSource_NormalOnly =
     \<lparr>name = ''NormalOnlyShader'', vert = ''standardVert'', frag = ''normalOnlyFrag'',
      shader_subclass = None\<rparr>"

definition ShaderSource_EquiToCubemap :: ShaderSource where
  "ShaderSource_EquiToCubemap =
     \<lparr>name = ''EquiToCubemapShader'', vert = ''standardVert'', frag = ''equiToCubemapFrag'',
      shader_subclass = Some ''EquiToCubemapShader''\<rparr>"

definition ShaderSource_CubemapToIrradiance :: ShaderSource where
  "ShaderSource_CubemapToIrradiance =
     \<lparr>name = ''CubemapToIrradianceShader'', vert = ''standardVert'',
      frag = ''cubemapToIrradianceFrag'', shader_subclass = Some ''CubemapToIrradianceShader''\<rparr>"

definition ShaderSource_CubemapSpecularPrefilter :: ShaderSource where
  "ShaderSource_CubemapSpecularPrefilter =
     \<lparr>name = ''CubemapSpecularPrefilter'', vert = ''standardVert'',
      frag = ''cubemapSpecularPrefilterFrag'',
      shader_subclass = Some ''CubemapSpecularPrefilterShader''\<rparr>"

definition ShaderSource_Grid :: ShaderSource where
  "ShaderSource_Grid =
     \<lparr>name = ''GridShader'', vert = ''gridVert'', frag = ''gridFrag'', shader_subclass = None\<rparr>"

definition ShaderSource_BRDF :: ShaderSource where
  "ShaderSource_BRDF =
     \<lparr>name = ''BRDFShader'', vert = ''brdfVert'', frag = ''brdfFrag'', shader_subclass = None\<rparr>"

text \<open>\<^verbatim>\<open>Object.values\<close> lists the exports of the namespace in the order they are declared.\<close>

definition ShaderSources :: "ShaderSource list" where
  "ShaderSources =
     [ShaderSource_Basic, ShaderSource_PBR, ShaderSource_NormalOnly,
      ShaderSource_EquiToCubemap, ShaderSource_CubemapToIrradiance,
      ShaderSource_CubemapSpecularPrefilter, ShaderSource_Grid, ShaderSource_BRDF]"

text \<open>
  \<^verbatim>\<open>Map.set\<close> replaces the value of a key that is present, where it stands, and adds
  a new key at the end; \<^verbatim>\<open>Map.get\<close> finds the value of a key; \<^verbatim>\<open>Map.values\<close> lists
  the values in the order of insertion.
\<close>

fun Map_set :: "'k \<Rightarrow> 'v \<Rightarrow> ('k \<times> 'v) list \<Rightarrow> ('k \<times> 'v) list" where
  "Map_set k v [] = [(k, v)]"
| "Map_set k v ((k', v') # kvs) =
     (if k' = k then (k, v) # kvs else (k', v') # Map_set k v kvs)"

definition Map_get :: "('k \<times> 'v) list \<Rightarrow> 'k \<Rightarrow> 'v option" where
  "Map_get kvs k = map_of kvs k"

definition Map_values :: "('k \<times> 'v) list \<Rightarrow> 'v list" where
  "Map_values kvs = map snd kvs"

definition GetShader :: "'a program_scheme \<Rightarrow> string \<Rightarrow> Shader option" where
  "GetShader p n = Map_get (Shaders p) n"

definition PerFrameBinding :: number where
  "PerFrameBinding = 0"

definition PerModelBinding :: number where
  "PerModelBinding = 1"

text \<open>
  The first loop of the constructor: one new shader object for each source, built by
  the subclass when there is one and by the class \<^verbatim>\<open>Shader\<close> otherwise, and stored
  under the name of the source. A new object takes the next free reference.
\<close>

fun new_shaders :: "ShaderSource list \<Rightarrow> program \<times> call list \<Rightarrow> program \<times> call list" where
  "new_shaders [] (p, g) = (p, g)"
| "new_shaders (shader_source # rest) (p, g) =
     new_shaders rest
       (p\<lparr>Shaders := Map_set (name shader_source) (next_ref p) (Shaders p),
          next_ref := Suc (next_ref p)\<rparr>,
        g @ [Shader_new (next_ref p)
               (case shader_subclass shader_source of Some c \<Rightarrow> c | None \<Rightarrow> ''Shader'')
               (vert shader_source) (frag shader_source)])"

text \<open>The second loop: both blocks are bound to each shader of the map.\<close>

fun bind_shaders :: "UniformBuffer \<Rightarrow> UniformBuffer \<Rightarrow> Shader list \<Rightarrow> call list \<Rightarrow> call list" where
  "bind_shaders perFrame perModel [] g = g"
| "bind_shaders perFrame perModel (s # ss) g =
     bind_shaders perFrame perModel ss
       (g @ [UniformBuffer_bindShader perFrame s PerFrameBinding,
             UniformBuffer_bindShader perModel s PerModelBinding])"

text \<open>
  The constructor, given the context and the state of the module. The non-null
  assertion on \<^verbatim>\<open>GetShader\<close> is erased by the compiler, so what \<^verbatim>\<open>GetShader\<close>
  returns is what the two blocks are built from.
\<close>

definition Renderer_constructor :: "call list \<Rightarrow> program \<Rightarrow> Renderer" where
  "Renderer_constructor gl0 p =
    (let empty_texture = next_ref p;
         g1 = gl0 @ [Texture2D_new empty_texture];
         empty_cube_texture = Suc empty_texture;
         g2 = g1 @ [TextureCubeMap_new empty_cube_texture];
         p1 = p\<lparr>EMPTY_TEXTURE := Some empty_texture,
                EMPTY_CUBE_TEXTURE := Some empty_cube_texture,
                Shaders := [],
                next_ref := Suc empty_cube_texture\<rparr>;
         (p2, g3) = new_shaders ShaderSources (p1, g2);
         shader = GetShader p2 (name ShaderSource_PBR);
         perFrame = next_ref p2;
         g4 = g3 @ [UniformBuffer_new perFrame shader ''ubo_per_frame''];
         perModel = Suc perFrame;
         g5 = g4 @ [UniformBuffer_new perModel shader ''ubo_per_model''];
         g6 = bind_shaders perFrame perModel (Map_values (Shaders p2)) g5
     in \<lparr>temp = temp p2, modelview_matrix = modelview_matrix p2,
         normalview_matrix = normalview_matrix p2, mvp_matrix = mvp_matrix p2,
         EMPTY_TEXTURE = EMPTY_TEXTURE p2, EMPTY_CUBE_TEXTURE = EMPTY_CUBE_TEXTURE p2,
         BRDF_LUT_TEXTURE = BRDF_LUT_TEXTURE p2, Shaders = Shaders p2,
         next_ref = Suc perModel,
         gl = g6,
         current_vertex_buffer = None, current_index_buffer = None,
         current_material = None, current_shader = None,
         uboPerFrameBlock = perFrame, uboPerModelBlock = perModel,
         stats = RendererStats_new,
         viewport = \<lparr>vp_x = 0, vp_y = 0, vp_width = 0, vp_height = 0\<rparr>\<rparr>)"

text \<open>The module as it is loaded, before any renderer is made.\<close>

definition module_loaded :: program where
  "module_loaded =
     \<lparr>temp = mat4_create, modelview_matrix = mat4_create,
      normalview_matrix = Some mat3_create, mvp_matrix = mat4_create,
      EMPTY_TEXTURE = None, EMPTY_CUBE_TEXTURE = None, BRDF_LUT_TEXTURE = None,
      Shaders = [], next_ref = 0\<rparr>"

section \<open>Sequences of calls\<close>

text \<open>
  The methods of a renderer, as a caller may invoke them one after another. A caller
  may catch an error and go on, so the state after a sequence is the state that each
  call leaves behind, thrown or not.
\<close>

datatype method_call =
    Call_setPerFrameUniforms mat4 mat4
  | Call_setPerModelUniforms mat4 mat4 mat4
  | Call_setViewport number number number number
  | Call_resetViewport
  | Call_resetSaveBindings
  | Call_draw number number number "IndexBuffer option" VertexBuffer "Material option"
  | Call_resetStats

primrec invoke :: "method_call \<Rightarrow> Renderer \<Rightarrow> Renderer" where
  "invoke (Call_setPerFrameUniforms view proj) this = setPerFrameUniforms view proj this"
| "invoke (Call_setPerModelUniforms model_matrix view_matrix proj_matrix) this =
     snd (setPerModelUniforms model_matrix view_matrix proj_matrix this)"
| "invoke (Call_setViewport x y width height) this = setViewport x y width height this"
| "invoke Call_resetViewport this = resetViewport this"
| "invoke Call_resetSaveBindings this = resetSaveBindings this"
| "invoke (Call_draw draw_mode count offset index_buffer vertex_buffer mat) this =
     snd (draw draw_mode count offset index_buffer vertex_buffer mat this)"
| "invoke Call_resetStats this = resetStats this"

primrec invoke_all :: "method_call list \<Rightarrow> Renderer \<Rightarrow> Renderer" where
  "invoke_all [] this = this"
| "invoke_all (c # cs) this = invoke_all cs (invoke c this)"

primrec is_setViewport :: "method_call \<Rightarrow> bool" where
  "is_setViewport (Call_setPerFrameUniforms view proj) = False"
| "is_setViewport (Call_setPerModelUniforms model_matrix view_matrix proj_matrix) = False"
| "is_setViewport (Call_setViewport x y width height) = True"
| "is_setViewport Call_resetViewport = False"
| "is_setViewport Call_resetSaveBindings = False"
| "is_setViewport (Call_draw draw_mode count offset index_buffer vertex_buffer mat) = False"
| "is_setViewport Call_resetStats = False"

section \<open>The earlier Renderer.draw\<close>

text \<open>
  The sources hold an earlier \<^verbatim>\<open>Renderer\<close> as well, whose \<^verbatim>\<open>draw\<close> takes the shader
  itself instead of a material, keeps no statistics and throws a bare string. It uses
  the fields \<^verbatim>\<open>gl\<close>, \<^verbatim>\<open>current_shader\<close>, \<^verbatim>\<open>current_vertex_buffer\<close> and
  \<^verbatim>\<open>current_index_buffer\<close> only.
\<close>

definition draw_earlier ::
  "number \<Rightarrow> number \<Rightarrow> number \<Rightarrow> IndexBuffer option \<Rightarrow> VertexBuffer \<Rightarrow> Shader
     \<Rightarrow> Renderer \<Rightarrow> (error + unit) \<times> Renderer" where
  "draw_earlier draw_mode count offset index_buffer vertex_buffer shader_arg this =
    (let this1 =
           (if Some shader_arg \<noteq> current_shader this
            then this\<lparr>current_shader := Some shader_arg,
                      gl := gl this @ [Shader_use shader_arg]\<rparr>
            else this);
         this2 =
           (if Some vertex_buffer \<noteq> current_vertex_buffer this1
            then this1\<lparr>current_vertex_buffer := Some vertex_buffer,
                       gl := gl this1 @ [VertexBuffer_bindBuffers vertex_buffer]\<rparr>
            else this1);
         this3 =
           (case index_buffer of
              Some ib \<Rightarrow>
                if Some (index_buffer_ref ib) \<noteq> current_index_buffer this2
                then this2\<lparr>current_index_buffer := Some (index_buffer_ref ib),
                           gl := gl this2 @ [IndexBuffer_bind (index_buffer_ref ib)]\<rparr>
                else this2
            | None \<Rightarrow> this2)
     in case index_buffer of
          Some ib \<Rightarrow>
            if BYTES_PER_ELEMENT ib = 2
            then (Inr (),
                  this3\<lparr>gl := gl this3 @ [drawElements draw_mode count UNSIGNED_SHORT offset]\<rparr>)
            else if BYTES_PER_ELEMENT ib = 4
            then (Inr (),
                  this3\<lparr>gl := gl this3 @ [drawElements draw_mode count UNSIGNED_INT offset]\<rparr>)
            else (Inl (Thrown ''Unknown index buffer type''), this3)
        | None \<Rightarrow> (Inr (), this3\<lparr>gl := gl this3 @ [drawArrays draw_mode offset count]\<rparr>))"

section \<open>Notions used to state the properties\<close>

text \<open>
  The product and the identity of matrices of real numbers, in the layout of gl-matrix,
  and what it is for such a matrix to be invertible, or to be the inverse-transpose of
  another: the words of the claims about products and inverses, without rounding.
\<close>

definition identity4 :: "real matrix4" where
  "identity4 = Mat4 1 0 0 0  0 1 0 0  0 0 1 0  0 0 0 1"


primrec product4 :: "real matrix4 \<Rightarrow> real matrix4 \<Rightarrow> real matrix4" where
  "product4 (Mat4 a00 a01 a02 a03 a10 a11 a12 a13 a20 a21 a22 a23 a30 a31 a32 a33) b =
    (case b of Mat4 b00 b01 b02 b03 b10 b11 b12 b13 b20 b21 b22 b23 b30 b31 b32 b33 \<Rightarrow>
     Mat4 (b00 * a00 + b01 * a10 + b02 * a20 + b03 * a30)
          (b00 * a01 + b01 * a11 + b02 * a21 + b03 * a31)
          (b00 * a02 + b01 * a12 + b02 * a22 + b03 * a32)
          (b00 * a03 + b01 * a13 + b02 * a23 + b03 * a33)
          (b10 * a00 + b11 * a10 + b12 * a20 + b13 * a30)
          (b10 * a01 + b11 * a11 + b12 * a21 + b13 * a31)
          (b10 * a02 + b11 * a12 + b12 * a22 + b13 * a32)
          (b10 * a03 + b11 * a13 + b12 * a23 + b13 * a33)
          (b20 * a00 + b21 * a10 + b22 * a20 + b23 * a30)
          (b20 * a01 + b21 * a11 + b22 * a21 + b23 * a31)
          (b20 * a02 + b21 * a12 + b22 * a22 + b23 * a32)
          (b20 * a03 + b21 * a13 + b22 * a23 + b23 * a33)
          (b30 * a00 + b31 * a10 + b32 * a20 + b33 * a30)
          (b30 * a01 + b31 * a11 + b32 * a21 + b33 * a31)
          (b30 * a02 + b31 * a12 + b32 * a22 + b33 * a32)
          (b30 * a03 + b31 * a13 + b32 * a23 + b33 * a33))"


definition inverse_of :: "real matrix4 \<Rightarrow> real matrix4 \<Rightarrow> bool" where
  "inverse_of b a \<longleftrightarrow> product4 a b = identity4 \<and> product4 b a = identity4"


text \<open>A matrix of real numbers as a matrix of the program.\<close>

definition mat4_of :: "real matrix4 \<Rightarrow> mat4" where
  "mat4_of a = map_matrix4 Finite a"

definition mat3_of :: "real matrix3 \<Rightarrow> mat3" where
  "mat3_of a = map_matrix3 Finite a"

text \<open>
  The determinant of a matrix of real numbers and, for a matrix whose determinant is not
  zero, its inverse: the adjugate over the determinant, entry by entry.
\<close>

primrec determinant4 :: "real matrix4 \<Rightarrow> real" where
  "determinant4 (Mat4 a00 a01 a02 a03 a10 a11 a12 a13 a20 a21 a22 a23 a30 a31 a32 a33) =
     (let b00 = a00 * a11 - a01 * a10; b01 = a00 * a12 - a02 * a10;
          b02 = a00 * a13 - a03 * a10; b03 = a01 * a12 - a02 * a11;
          b04 = a01 * a13 - a03 * a11; b05 = a02 * a13 - a03 * a12;
          b06 = a20 * a31 - a21 * a30; b07 = a20 * a32 - a22 * a30;
          b08 = a20 * a33 - a23 * a30; b09 = a21 * a32 - a22 * a31;
          b10 = a21 * a33 - a23 * a31; b11 = a22 * a33 - a23 * a32
      in b00 * b11 - b01 * b10 + b02 * b09 + b03 * b08 - b04 * b07 + b05 * b06)"

primrec inverse4 :: "real matrix4 \<Rightarrow> real matrix4" where
  "inverse4 (Mat4 a00 a01 a02 a03 a10 a11 a12 a13 a20 a21 a22 a23 a30 a31 a32 a33) =
     (let b00 = a00 * a11 - a01 * a10; b01 = a00 * a12 - a02 * a10;
          b02 = a00 * a13 - a03 * a10; b03 = a01 * a12 - a02 * a11;
          b04 = a01 * a13 - a03 * a11; b05 = a02 * a13 - a03 * a12;
          b06 = a20 * a31 - a21 * a30; b07 = a20 * a32 - a22 * a30;
          b08 = a20 * a33 - a23 * a30; b09 = a21 * a32 - a22 * a31;
          b10 = a21 * a33 - a23 * a31; b11 = a22 * a33 - a23 * a32;
          det = b00 * b11 - b01 * b10 + b02 * b09 + b03 * b08 - b04 * b07 + b05 * b06
      in Mat4 ((a11 * b11 - a12 * b10 + a13 * b09) / det)
              ((a02 * b10 - a01 * b11 - a03 * b09) / det)
              ((a31 * b05 - a32 * b04 + a33 * b03) / det)
              ((a22 * b04 - a21 * b05 - a23 * b03) / det)
              ((a12 * b08 - a10 * b11 - a13 * b07) / det)
              ((a00 * b11 - a02 * b08 + a03 * b07) / det)
              ((a32 * b02 - a30 * b05 - a33 * b01) / det)
              ((a20 * b05 - a22 * b02 + a23 * b01) / det)
              ((a10 * b10 - a11 * b08 + a13 * b06) / det)
              ((a01 * b08 - a00 * b10 - a03 * b06) / det)
              ((a30 * b04 - a31 * b02 + a33 * b00) / det)
              ((a21 * b02 - a20 * b04 - a23 * b00) / det)
              ((a11 * b07 - a10 * b09 - a12 * b06) / det)
              ((a00 * b09 - a01 * b07 + a02 * b06) / det)
              ((a31 * b01 - a30 * b03 - a32 * b00) / det)
              ((a20 * b03 - a21 * b01 + a22 * b00) / det))"


text \<open>
  A matrix of real numbers as a matrix of the program, and back: the real number that
  a finite number denotes, entry by entry.
\<close>

primrec the_real :: "number \<Rightarrow> real" where
  "the_real (Finite r) = r"
| "the_real Infinity = 0"
| "the_real NegInfinity = 0"
| "the_real NaN = 0"

definition reals_of :: "mat4 \<Rightarrow> real matrix4" where
  "reals_of a = map_matrix4 the_real a"

text \<open>
  A number that is a whole number of magnitude at most \<open>k\<close>, and a matrix of such
  numbers. Sums and products of whole numbers are computed without rounding while they
  stay below \<open>2 ^ 53\<close>, and are stored without rounding while they stay below
  \<open>2 ^ 24\<close>.
\<close>

primrec whole :: "real \<Rightarrow> number \<Rightarrow> bool" where
  "whole k (Finite r) \<longleftrightarrow> of_int \<lfloor>r\<rfloor> = r \<and> \<bar>r\<bar> \<le> k"
| "whole k Infinity \<longleftrightarrow> False"
| "whole k NegInfinity \<longleftrightarrow> False"
| "whole k NaN \<longleftrightarrow> False"

definition whole_matrix :: "real \<Rightarrow> mat4 \<Rightarrow> bool" where
  "whole_matrix k a = pred_matrix4 (whole k) a"

text \<open>The calls that the constructor makes when the next free reference is \<open>n\<close>.\<close>

definition constructor_calls :: "ref \<Rightarrow> call list" where
  "constructor_calls n =
     [Texture2D_new n, TextureCubeMap_new (n + 1),
      Shader_new (n + 2) ''BasicShader'' ''standardVert'' ''basicFrag'',
      Shader_new (n + 3) ''PBRShader'' ''standardVert'' ''pbrFrag'',
      Shader_new (n + 4) ''Shader'' ''standardVert'' ''normalOnlyFrag'',
      Shader_new (n + 5) ''EquiToCubemapShader'' ''standardVert'' ''equiToCubemapFrag'',
      Shader_new (n + 6) ''CubemapToIrradianceShader'' ''standardVert''
        ''cubemapToIrradianceFrag'',
      Shader_new (n + 7) ''CubemapSpecularPrefilterShader'' ''standardVert''
        ''cubemapSpecularPrefilterFrag'',
      Shader_new (n + 8) ''Shader'' ''gridVert'' ''gridFrag'',
      Shader_new (n + 9) ''Shader'' ''brdfVert'' ''brdfFrag'',
      UniformBuffer_new (n + 10) (Some (n + 3)) ''ubo_per_frame'',
      UniformBuffer_new (n + 11) (Some (n + 3)) ''ubo_per_model'',
      UniformBuffer_bindShader (n + 10) (n + 2) 0, UniformBuffer_bindShader (n + 11) (n + 2) 1,
      UniformBuffer_bindShader (n + 10) (n + 3) 0, UniformBuffer_bindShader (n + 11) (n + 3) 1,
      UniformBuffer_bindShader (n + 10) (n + 4) 0, UniformBuffer_bindShader (n + 11) (n + 4) 1,
      UniformBuffer_bindShader (n + 10) (n + 5) 0, UniformBuffer_bindShader (n + 11) (n + 5) 1,
      UniformBuffer_bindShader (n + 10) (n + 6) 0, UniformBuffer_bindShader (n + 11) (n + 6) 1,
      UniformBuffer_bindShader (n + 10) (n + 7) 0, UniformBuffer_bindShader (n + 11) (n + 7) 1,
      UniformBuffer_bindShader (n + 10) (n + 8) 0, UniformBuffer_bindShader (n + 11) (n + 8) 1,
      UniformBuffer_bindShader (n + 10) (n + 9) 0, UniformBuffer_bindShader (n + 11) (n + 9) 1]"

section \<open>Example inputs\<close>

text \<open>
  The first renderer made after the module is loaded, a two-byte and a one-byte index
  buffer, a material that uses the PBR shader, the renderer after one indexed draw of 36
  indices, and the renderer after one indexed draw of \<open>2 ^ 53\<close> indices.
\<close>

definition renderer0 :: Renderer where
  "renderer0 = Renderer_constructor [] module_loaded"

definition example_index_buffer :: IndexBuffer where
  "example_index_buffer = \<lparr>index_buffer_ref = 20, BYTES_PER_ELEMENT = 2\<rparr>"

definition example_byte_index_buffer :: IndexBuffer where
  "example_byte_index_buffer = \<lparr>index_buffer_ref = 23, BYTES_PER_ELEMENT = 1\<rparr>"

definition example_material :: Material where
  "example_material = \<lparr>material_ref = 22, shader = 3\<rparr>"

definition renderer1 :: Renderer where
  "renderer1 =
     snd (draw (Finite 4) (Finite 36) 0 (Some example_index_buffer) 21
            (Some example_material) renderer0)"

definition renderer_big :: Renderer where
  "renderer_big =
     snd (draw (Finite 4) (Finite 9007199254740992) 0 (Some example_index_buffer) 21
            (Some example_material) renderer0)"


definition mat4_flat :: "real matrix4" where
  "mat4_flat = Mat4 1 0 0 0  0 1 0 0  0 0 0 0  0 0 0 1"



definition example_view :: "real matrix4" where
  "example_view = Mat4 0 1 0 0  (- 1) 0 0 0  0 0 1 0  0 0 (- 5) 1"

definition example_proj :: "real matrix4" where
  "example_proj = Mat4 1 0 0 0  0 2 0 0  0 0 (- 1) (- 1)  0 0 (- 2) 0"




definition scale_thin :: "real matrix4" where
  "scale_thin = Mat4 (pow2 (- 200)) 0 0 0  0 1 0 0  0 0 1 0  0 0 0 1"

definition scale_thin_inverse :: "real matrix4" where
  "scale_thin_inverse = Mat4 (pow2 200) 0 0 0  0 1 0 0  0 0 1 0  0 0 0 1"

section \<open>Facts about rounding\<close>

lemma pow2_powr: "pow2 k = 2 powr (of_int k)"
  by (simp add: pow2_def powr_realpow [symmetric] powr_minus divide_inverse)

lemma pow2_pos [simp]: "0 < pow2 k"
  by (simp add: pow2_powr)

lemma pow2_nonzero [simp]: "pow2 k \<noteq> 0"
  using pow2_pos [of k] by linarith

lemma pow2_not_le_0 [simp]: "\<not> pow2 k \<le> 0"
  using pow2_pos [of k] by linarith

lemma pow2_abs [simp]: "\<bar>pow2 k\<bar> = pow2 k"
  using pow2_pos [of k] by linarith

lemma pow2_add: "pow2 (a + b) = pow2 a * pow2 b"
  by (simp add: pow2_powr powr_add)

lemma pow2_mult [simp]: "pow2 a * pow2 b = pow2 (a + b)"
  by (simp add: pow2_add)

lemma pow2_one: "pow2 1 = 2"
  by (simp add: pow2_def)

lemma pow2_Suc: "pow2 (k + 1) = 2 * pow2 k"
  using pow2_add [of k 1] pow2_one by simp

lemma pow2_less_iff [simp]: "pow2 a < pow2 b \<longleftrightarrow> a < b"
  by (simp add: pow2_powr)

lemma pow2_le_iff [simp]: "pow2 a \<le> pow2 b \<longleftrightarrow> a \<le> b"
  by (simp add: pow2_powr)

lemma pow2_nat: "0 \<le> k \<Longrightarrow> pow2 k = of_int (2 ^ nat k)"
  by (simp add: pow2_def)

lemma exponent_eq:
  assumes "pow2 e \<le> \<bar>r\<bar>" and "\<bar>r\<bar> < pow2 (e + 1)"
  shows "exponent r = e"
proof -
  have pos: "0 < \<bar>r\<bar>"
    using assms(1) pow2_pos [of e] by linarith
  have "of_int e \<le> log 2 \<bar>r\<bar>"
    using assms(1) pos by (simp add: pow2_powr le_log_iff)
  moreover have "log 2 \<bar>r\<bar> < of_int e + 1"
    using assms(2) pos by (simp add: pow2_powr log_less_iff)
  ultimately show ?thesis
    unfolding exponent_def by linarith
qed

lemma exponent_less:
  assumes "r \<noteq> 0" and "\<bar>r\<bar> < pow2 (e + 1)"
  shows "exponent r \<le> e"
proof -
  have "log 2 \<bar>r\<bar> < of_int (e + 1)"
    using assms by (simp add: pow2_powr log_less_iff)
  then show ?thesis
    unfolding exponent_def by linarith
qed

lemma round_half_even_int [simp]: "round_half_even (of_int z) = z"
  by (simp add: round_half_even_def)

lemma round_half_even_small:
  assumes "\<bar>x\<bar> \<le> 1 / 2"
  shows "round_half_even x = 0"
proof -
  consider "0 \<le> x" "x < 1 / 2" | "x = 1 / 2" | "x < 0" "- 1 / 2 < x" | "x = - 1 / 2"
    using assms by fastforce
  then show ?thesis
  proof cases
    case 1
    then have "\<lfloor>x\<rfloor> = 0" by linarith
    with 1 show ?thesis by (simp add: round_half_even_def)
  next
    case 2
    then have "\<lfloor>x\<rfloor> = 0" by linarith
    with 2 show ?thesis by (simp add: round_half_even_def)
  next
    case 3
    then have "\<lfloor>x\<rfloor> = - 1" by linarith
    with 3 show ?thesis by (simp add: round_half_even_def)
  next
    case 4
    then have "\<lfloor>x\<rfloor> = - 1" by linarith
    with 4 show ?thesis by (simp add: round_half_even_def)
  qed
qed

text \<open>A value of the format is its own rounding.\<close>

lemma round_binary_exact:
  assumes r: "r = of_int m * pow2 k"
    and m: "\<bar>m\<bar> < 2 ^ p"
    and k: "emin - (int p - 1) \<le> k"
    and big: "\<bar>r\<bar> < pow2 (emax + 1)"
  shows "round_binary p emin emax r = Finite r"
proof (cases "r = 0")
  case True
  then show ?thesis by (simp add: round_binary_def)
next
  case False
  define q where "q = max (exponent r) emin - (int p - 1)"
  have "\<bar>r\<bar> = of_int \<bar>m\<bar> * pow2 k"
    by (simp add: r abs_mult)
  also have "\<dots> < of_int (2 ^ p) * pow2 k"
    using m by (intro mult_strict_right_mono) (simp_all del: of_int_power)
  also have "\<dots> = pow2 (int p + k)"
    by (simp add: pow2_add pow2_nat del: pow2_mult)
  finally have "\<bar>r\<bar> < pow2 ((int p + k - 1) + 1)"
    by simp
  then have "exponent r \<le> int p + k - 1"
    using False by (rule exponent_less [rotated])
  then have qk: "q \<le> k"
    using k by (simp add: q_def)
  have split: "pow2 k = pow2 (k - q) * pow2 q"
    using pow2_add [of "k - q" q] by simp
  then have "r / pow2 q = of_int m * pow2 (k - q)"
    by (simp add: r del: pow2_mult)
  also have "\<dots> = of_int (m * 2 ^ nat (k - q))"
    using qk by (simp add: pow2_nat)
  finally have "round_half_even (r / pow2 q) = m * 2 ^ nat (k - q)"
    by (simp only: round_half_even_int)
  then have "of_int (round_half_even (r / pow2 q)) * pow2 q =
               of_int m * pow2 (k - q) * pow2 q"
    using qk by (simp add: pow2_nat del: pow2_mult)
  also have "\<dots> = r"
    using split by (simp add: r del: pow2_mult)
  finally have v: "of_int (round_half_even (r / pow2 q)) * pow2 q = r" .
  show ?thesis
    using False big v by (simp add: round_binary_def Let_def q_def [symmetric])
qed

text \<open>A value of at most half the least positive value of the format rounds to zero.\<close>

lemma round_binary_tiny:
  assumes "\<bar>r\<bar> \<le> pow2 (emin - int p)"
  shows "round_binary p emin emax r = Finite 0"
proof (cases "r = 0")
  case True
  then show ?thesis by (simp add: round_binary_def)
next
  case False
  have "pow2 (emin - int p) < pow2 ((emin - int p) + 1)"
    by simp
  then have "\<bar>r\<bar> < pow2 ((emin - int p) + 1)"
    using assms by linarith
  then have "exponent r \<le> emin - int p"
    using False by (rule exponent_less [rotated])
  then have q: "max (exponent r) emin - (int p - 1) = emin - int p + 1"
    by simp
  have "pow2 (emin - int p + 1) = 2 * pow2 (emin - int p)"
    by (rule pow2_Suc)
  then have "\<bar>r / pow2 (emin - int p + 1)\<bar> \<le> 1 / 2"
    using assms by (simp add: abs_divide divide_simps)
  then have "round_half_even (r / pow2 (emin - int p + 1)) = 0"
    by (rule round_half_even_small)
  then show ?thesis
    using False by (simp add: round_binary_def Let_def q)
qed

text \<open>Any other value, from its exponent and the rounding of its significand.\<close>

lemma round_binary_normal:
  assumes "pow2 e \<le> \<bar>r\<bar>" and "\<bar>r\<bar> < pow2 (e + 1)" and "emin \<le> e"
    and "round_half_even (r / pow2 (e - (int p - 1))) = m"
    and "\<bar>of_int m * pow2 (e - (int p - 1))\<bar> < pow2 (emax + 1)"
  shows "round_binary p emin emax r = Finite (of_int m * pow2 (e - (int p - 1)))"
proof -
  have e: "exponent r = e"
    using assms(1,2) by (rule exponent_eq)
  have nz: "r \<noteq> 0"
    using assms(1) pow2_pos [of e] by auto
  have q: "max e emin - (int p - 1) = e - (int p - 1)"
    using assms(3) by simp
  show ?thesis
    using nz assms(5) by (simp add: round_binary_def Let_def e q assms(4) not_le [symmetric])
qed

lemma round_double_exact:
  "x = of_int m * pow2 k \<Longrightarrow> \<bar>m\<bar> < 2 ^ 53 \<Longrightarrow> - 1074 \<le> k \<Longrightarrow> \<bar>x\<bar> < pow2 1024
     \<Longrightarrow> round_double x = Finite x"
  unfolding round_double_def by (rule round_binary_exact) simp_all

lemma round_float32_exact:
  "x = of_int m * pow2 k \<Longrightarrow> \<bar>m\<bar> < 2 ^ 24 \<Longrightarrow> - 149 \<le> k \<Longrightarrow> \<bar>x\<bar> < pow2 128
     \<Longrightarrow> round_float32 x = Finite x"
  unfolding round_float32_def by (rule round_binary_exact) simp_all

lemma big_pow2: "8192 < pow2 128" "8192 < pow2 1024" "9007199254740992 < pow2 1024"
  by (simp_all add: pow2_def)

text \<open>
  Whole numbers of magnitude up to \<open>2 ^ 53\<close> are doubles; multiples of \<open>1 / 1024\<close> of
  magnitude below 8192 are doubles and singles.
\<close>

lemma round_double_int:
  assumes "x \<in> \<int>" and "\<bar>x\<bar> \<le> 9007199254740992"
  shows "round_double x = Finite x"
proof (cases "\<bar>x\<bar> < 9007199254740992")
  case True
  from assms(1) obtain m :: int where m: "x = of_int m"
    by (auto elim: Ints_cases)
  have x: "x = of_int m * pow2 0"
    using m by (simp add: pow2_def)
  have b: "\<bar>m\<bar> < 9007199254740992"
    using True m by linarith
  show ?thesis
    using big_pow2 True b by (intro round_double_exact [OF x]) simp_all
next
  case False
  with assms(2) have "\<bar>x\<bar> = 9007199254740992"
    by simp
  then consider "x = 9007199254740992" | "x = - 9007199254740992"
    by linarith
  then show ?thesis
  proof cases
    case 1
    have "round_double (of_int 1 * pow2 53) = Finite (of_int 1 * pow2 53)"
      by (rule round_double_exact [OF refl]) simp_all
    then show ?thesis
      by (simp add: 1 pow2_def)
  next
    case 2
    have "round_double (of_int (- 1) * pow2 53) = Finite (of_int (- 1) * pow2 53)"
      by (rule round_double_exact [OF refl]) simp_all
    then show ?thesis
      by (simp add: 2 pow2_def)
  qed
qed

lemma small_dyadic:
  assumes "x * 1024 \<in> \<int>" and "\<bar>x\<bar> < 8192"
  shows "round_double x = Finite x" and "round_float32 x = Finite x"
proof -
  from assms(1) obtain m :: int where m: "x * 1024 = of_int m"
    by (auto elim: Ints_cases)
  have x: "x = of_int m * pow2 (- 10)"
    using m by (simp add: pow2_def)
  have "\<bar>of_int m :: real\<bar> < 8192 * 1024"
    using assms(2) m [symmetric] by (simp add: abs_mult)
  then have b: "\<bar>m\<bar> < 8388608"
    by linarith
  show "round_double x = Finite x"
    using big_pow2 assms(2) b by (intro round_double_exact [OF x]) simp_all
  show "round_float32 x = Finite x"
    using big_pow2 assms(2) b by (intro round_float32_exact [OF x]) simp_all
qed

lemma round_double_pow2:
  "- 1074 \<le> k \<Longrightarrow> k \<le> 1023 \<Longrightarrow> round_double (pow2 k) = Finite (pow2 k)"
  by (rule round_double_exact [of _ 1 k]) simp_all

lemma round_float32_pow2:
  "- 149 \<le> k \<Longrightarrow> k \<le> 127 \<Longrightarrow> round_float32 (pow2 k) = Finite (pow2 k)"
  by (rule round_float32_exact [of _ 1 k]) simp_all

lemma round_double_tiny: "k \<le> - 1075 \<Longrightarrow> round_double (pow2 k) = Finite 0"
  unfolding round_double_def by (rule round_binary_tiny) simp

lemma round_float32_tiny: "k \<le> - 150 \<Longrightarrow> round_float32 (pow2 k) = Finite 0"
  unfolding round_float32_def by (rule round_binary_tiny) simp

text \<open>Four roundings that are not exact.\<close>

lemma round_double_2_53_plus_1:
  "round_double 9007199254740993 = Finite 9007199254740992"
proof -
  have m: "round_half_even (9007199254740993 / pow2 (53 - (int 53 - 1))) = 4503599627370496"
  proof -
    have f: "\<lfloor>9007199254740993 / 2 :: real\<rfloor> = 4503599627370496"
      by simp
    show ?thesis
      unfolding round_half_even_def Let_def by (simp add: pow2_def f)
  qed
  have "round_double 9007199254740993 =
          Finite (of_int 4503599627370496 * pow2 (53 - (int 53 - 1)))"
    unfolding round_double_def
    by (rule round_binary_normal [OF _ _ _ m]) (simp_all add: pow2_def)
  then show ?thesis
    by (simp add: pow2_def)
qed





text \<open>The rules by which an expression on concrete numbers is evaluated.\<close>

lemmas number_ops =
  zero_number_def one_number_def plus_number_def minus_number_def times_number_def
  divide_number_def double_sub_def

lemmas rounding = small_dyadic round_double_pow2 round_float32_pow2 round_double_tiny
  round_float32_tiny

text \<open>
  The exponent of a number that is not zero, from the number of binary digits of a
  whole number: on rational numbers the rounding functions can be evaluated.
\<close>

lemma bitlen_real_bounds:
  assumes "0 < n"
  shows "(2::real) ^ nat (bitlen n - 1) \<le> of_int n" and "real_of_int n + 1 \<le> 2 ^ nat (bitlen n)"
    and "1 \<le> bitlen n"
proof -
  from bitlen_bounds [OF assms]
  have lo: "(2::int) ^ nat (bitlen n - 1) \<le> n" and hi: "n + 1 \<le> 2 ^ nat (bitlen n)"
    by simp_all
  show "(2::real) ^ nat (bitlen n - 1) \<le> of_int n"
    using of_int_le_iff [where ?'a = real, of "2 ^ nat (bitlen n - 1)" n] lo by simp
  show "real_of_int n + 1 \<le> 2 ^ nat (bitlen n)"
    using of_int_le_iff [where ?'a = real, of "n + 1" "2 ^ nat (bitlen n)"] hi by simp
  show "1 \<le> bitlen n"
    using assms by (simp add: bitlen_alt_def)
qed

lemma exponent_code [code]:
  "exponent r =
     (if r = 0 then 0
      else if 1 \<le> \<bar>r\<bar> then bitlen \<lfloor>\<bar>r\<bar>\<rfloor> - 1
      else - bitlen (\<lceil>1 / \<bar>r\<bar>\<rceil> - 1))"
proof (cases "r = 0")
  case True
  then show ?thesis
    by (simp add: exponent_def log_def)
next
  case nz: False
  show ?thesis
  proof (cases "1 \<le> \<bar>r\<bar>")
    case True
    define n where "n = \<lfloor>\<bar>r\<bar>\<rfloor>"
    have n: "0 < n" "of_int n \<le> \<bar>r\<bar>" "\<bar>r\<bar> < of_int n + 1"
      using True unfolding n_def by linarith+
    note b = bitlen_real_bounds [OF n(1)]
    have p1: "pow2 (bitlen n - 1) = 2 ^ nat (bitlen n - 1)"
      and p2: "pow2 (bitlen n - 1 + 1) = 2 ^ nat (bitlen n)"
      using b(3) by (simp_all add: pow2_def)
    have 1: "pow2 (bitlen n - 1) \<le> \<bar>r\<bar>"
      unfolding p1 using b(1) n(2) by linarith
    have 2: "\<bar>r\<bar> < pow2 (bitlen n - 1 + 1)"
      unfolding p2 using b(2) n(3) by linarith
    from exponent_eq [OF 1 2] show ?thesis
      using nz True by (simp add: n_def)
  next
    case False
    define m where "m = \<lceil>1 / \<bar>r\<bar>\<rceil> - 1"
    have pos: "0 < \<bar>r\<bar>" "\<bar>r\<bar> < 1"
      using nz False by simp_all
    have big: "1 < 1 / \<bar>r\<bar>"
      using pos by (simp add: field_simps)
    have m: "0 < m" "of_int m < 1 / \<bar>r\<bar>" "1 / \<bar>r\<bar> \<le> of_int m + 1"
      using big unfolding m_def by linarith+
    note b = bitlen_real_bounds [OF m(1)]
    have p1: "pow2 (- bitlen m) = 1 / 2 ^ nat (bitlen m)"
      using b(3) by (simp add: pow2_def)
    have p2: "pow2 (- bitlen m + 1) = 1 / 2 ^ nat (bitlen m - 1)"
      using b(3) by (cases "bitlen m = 1") (simp_all add: pow2_def nat_diff_distrib)
    have "1 / \<bar>r\<bar> \<le> 2 ^ nat (bitlen m)"
      using b(2) m(3) by linarith
    then have 1: "pow2 (- bitlen m) \<le> \<bar>r\<bar>"
      unfolding p1 using pos by (simp add: field_simps)
    have "2 ^ nat (bitlen m - 1) < 1 / \<bar>r\<bar>"
      using b(1) m(2) by linarith
    then have 2: "\<bar>r\<bar> < pow2 (- bitlen m + 1)"
      unfolding p2 using pos by (simp add: field_simps)
    from exponent_eq [OF 1 2] show ?thesis
      using nz False by (simp add: m_def)
  qed
qed

text \<open>
  Whole numbers: their sums, differences and products are computed without rounding,
  and whole numbers below \<open>2 ^ 24\<close> are stored without rounding.
\<close>

lemma wholeE:
  assumes "whole k x"
  obtains r where "x = Finite r" and "r \<in> \<int>" and "\<bar>r\<bar> \<le> k"
proof (cases x)
  case (Finite r)
  with assms have "of_int \<lfloor>r\<rfloor> = r" and "\<bar>r\<bar> \<le> k"
    by simp_all
  then have "r \<in> \<int>"
    by (metis Ints_of_int)
  then show ?thesis
    using Finite \<open>\<bar>r\<bar> \<le> k\<close> by (intro that [of r])
qed (use assms in simp_all)

lemma wholeI: "r \<in> \<int> \<Longrightarrow> \<bar>r\<bar> \<le> k \<Longrightarrow> whole k (Finite r)"
  by (auto elim: Ints_cases)

lemma whole_the_real: "whole k x \<Longrightarrow> Finite (the_real x) = x"
  by (auto elim: wholeE)

lemma whole_mono: "whole k x \<Longrightarrow> k \<le> k' \<Longrightarrow> whole k' x"
  by (cases x) simp_all

lemma whole_mul:
  assumes "whole k x" and "whole l y" and "k * l \<le> 9007199254740992"
  shows "whole (k * l) (x * y)" and "the_real (x * y) = the_real x * the_real y"
proof -
  from assms(1) obtain r where x: "x = Finite r" "r \<in> \<int>" "\<bar>r\<bar> \<le> k"
    by (rule wholeE)
  from assms(2) obtain s where y: "y = Finite s" "s \<in> \<int>" "\<bar>s\<bar> \<le> l"
    by (rule wholeE)
  have i: "r * s \<in> \<int>"
    using x(2) y(2) by (rule Ints_mult)
  have "\<bar>r\<bar> * \<bar>s\<bar> \<le> k * l"
    using x(3) y(3) by (intro mult_mono) simp_all
  then have b: "\<bar>r * s\<bar> \<le> k * l"
    by (simp add: abs_mult)
  then have "\<bar>r * s\<bar> \<le> 9007199254740992"
    using assms(3) by linarith
  with i have e: "x * y = Finite (r * s)"
    by (simp add: x(1) y(1) times_number_def round_double_int)
  show "whole (k * l) (x * y)"
    unfolding e using i b by (rule wholeI)
  show "the_real (x * y) = the_real x * the_real y"
    unfolding e by (simp add: x(1) y(1))
qed

lemma whole_add:
  assumes "whole k x" and "whole l y" and "k + l \<le> 9007199254740992"
  shows "whole (k + l) (x + y)" and "the_real (x + y) = the_real x + the_real y"
proof -
  from assms(1) obtain r where x: "x = Finite r" "r \<in> \<int>" "\<bar>r\<bar> \<le> k"
    by (rule wholeE)
  from assms(2) obtain s where y: "y = Finite s" "s \<in> \<int>" "\<bar>s\<bar> \<le> l"
    by (rule wholeE)
  have i: "r + s \<in> \<int>"
    using x(2) y(2) by (rule Ints_add)
  have b: "\<bar>r + s\<bar> \<le> k + l"
    using x(3) y(3) by linarith
  then have "\<bar>r + s\<bar> \<le> 9007199254740992"
    using assms(3) by linarith
  with i have e: "x + y = Finite (r + s)"
    by (simp add: x(1) y(1) plus_number_def round_double_int)
  show "whole (k + l) (x + y)"
    unfolding e using i b by (rule wholeI)
  show "the_real (x + y) = the_real x + the_real y"
    unfolding e by (simp add: x(1) y(1))
qed

lemma whole_sub:
  assumes "whole k x" and "whole l y" and "k + l \<le> 9007199254740992"
  shows "whole (k + l) (x - y)" and "the_real (x - y) = the_real x - the_real y"
proof -
  from assms(1) obtain r where x: "x = Finite r" "r \<in> \<int>" "\<bar>r\<bar> \<le> k"
    by (rule wholeE)
  from assms(2) obtain s where y: "y = Finite s" "s \<in> \<int>" "\<bar>s\<bar> \<le> l"
    by (rule wholeE)
  have i: "r - s \<in> \<int>"
    using x(2) y(2) by (rule Ints_diff)
  have b: "\<bar>r - s\<bar> \<le> k + l"
    using x(3) y(3) by linarith
  then have "\<bar>r - s\<bar> \<le> 9007199254740992"
    using assms(3) by linarith
  with i have e: "x - y = Finite (r - s)"
    by (simp add: x(1) y(1) minus_number_def double_sub_def round_double_int)
  show "whole (k + l) (x - y)"
    unfolding e using i b by (rule wholeI)
  show "the_real (x - y) = the_real x - the_real y"
    unfolding e by (simp add: x(1) y(1))
qed

lemma round_float32_int:
  assumes "x \<in> \<int>" and "\<bar>x\<bar> < 16777216"
  shows "round_float32 x = Finite x"
proof -
  from assms(1) obtain m :: int where m: "x = of_int m"
    by (auto elim: Ints_cases)
  have x: "x = of_int m * pow2 0"
    using m by (simp add: pow2_def)
  have b: "\<bar>m\<bar> < 16777216"
    using assms(2) m by linarith
  have "(16777216::real) < pow2 128"
    by (simp add: pow2_def)
  then have "\<bar>x\<bar> < pow2 128"
    using assms(2) by linarith
  then show ?thesis
    using b by (intro round_float32_exact [OF x]) simp_all
qed

lemma whole_fround:
  assumes "whole k x" and "k < 16777216"
  shows "fround x = x"
proof -
  from assms(1) obtain r where x: "x = Finite r" "r \<in> \<int>" "\<bar>r\<bar> \<le> k"
    by (rule wholeE)
  have "\<bar>r\<bar> < 16777216"
    using x(3) assms(2) by linarith
  then show ?thesis
    using x(2) by (simp add: x(1) round_float32_int)
qed

lemma whole_nonneg: "whole k x \<Longrightarrow> 0 \<le> k"
  by (erule wholeE) linarith

section \<open>Facts about the constructor\<close>

lemmas ShaderSource_defs =
  ShaderSources_def ShaderSource_Basic_def ShaderSource_PBR_def ShaderSource_NormalOnly_def
  ShaderSource_EquiToCubemap_def ShaderSource_CubemapToIrradiance_def
  ShaderSource_CubemapSpecularPrefilter_def ShaderSource_Grid_def ShaderSource_BRDF_def

lemma new_shaders_ShaderSources:
  "new_shaders ShaderSources (p\<lparr>Shaders := [], next_ref := n\<rparr>, g) =
     (p\<lparr>Shaders :=
          [(''BasicShader'', n), (''PBRShader'', n + 1), (''NormalOnlyShader'', n + 2),
           (''EquiToCubemapShader'', n + 3), (''CubemapToIrradianceShader'', n + 4),
           (''CubemapSpecularPrefilter'', n + 5), (''GridShader'', n + 6),
           (''BRDFShader'', n + 7)],
        next_ref := n + 8\<rparr>,
      g @ [Shader_new n ''BasicShader'' ''standardVert'' ''basicFrag'',
           Shader_new (n + 1) ''PBRShader'' ''standardVert'' ''pbrFrag'',
           Shader_new (n + 2) ''Shader'' ''standardVert'' ''normalOnlyFrag'',
           Shader_new (n + 3) ''EquiToCubemapShader'' ''standardVert'' ''equiToCubemapFrag'',
           Shader_new (n + 4) ''CubemapToIrradianceShader'' ''standardVert''
             ''cubemapToIrradianceFrag'',
           Shader_new (n + 5) ''CubemapSpecularPrefilterShader'' ''standardVert''
             ''cubemapSpecularPrefilterFrag'',
           Shader_new (n + 6) ''Shader'' ''gridVert'' ''gridFrag'',
           Shader_new (n + 7) ''Shader'' ''brdfVert'' ''brdfFrag''])"
  by (simp add: ShaderSource_defs)

lemma Renderer_constructor_eq:
  "Renderer_constructor gl0 p =
     \<lparr>temp = temp p, modelview_matrix = modelview_matrix p,
      normalview_matrix = normalview_matrix p, mvp_matrix = mvp_matrix p,
      EMPTY_TEXTURE = Some (next_ref p), EMPTY_CUBE_TEXTURE = Some (next_ref p + 1),
      BRDF_LUT_TEXTURE = BRDF_LUT_TEXTURE p,
      Shaders =
        [(''BasicShader'', next_ref p + 2), (''PBRShader'', next_ref p + 3),
         (''NormalOnlyShader'', next_ref p + 4), (''EquiToCubemapShader'', next_ref p + 5),
         (''CubemapToIrradianceShader'', next_ref p + 6),
         (''CubemapSpecularPrefilter'', next_ref p + 7), (''GridShader'', next_ref p + 8),
         (''BRDFShader'', next_ref p + 9)],
      next_ref = next_ref p + 12,
      gl = gl0 @ constructor_calls (next_ref p),
      current_vertex_buffer = None, current_index_buffer = None,
      current_material = None, current_shader = None,
      uboPerFrameBlock = next_ref p + 10, uboPerModelBlock = next_ref p + 11,
      stats = RendererStats_new,
      viewport = \<lparr>vp_x = 0, vp_y = 0, vp_width = 0, vp_height = 0\<rparr>\<rparr>"
proof -
  have upd: "p\<lparr>EMPTY_TEXTURE := Some (next_ref p), EMPTY_CUBE_TEXTURE := Some (Suc (next_ref p)),
               Shaders := [], next_ref := Suc (Suc (next_ref p))\<rparr> =
             (p\<lparr>EMPTY_TEXTURE := Some (next_ref p), EMPTY_CUBE_TEXTURE := Some (Suc (next_ref p))\<rparr>)
               \<lparr>Shaders := [], next_ref := Suc (Suc (next_ref p))\<rparr>"
    by simp
  show ?thesis
    unfolding Renderer_constructor_def Let_def upd new_shaders_ShaderSources
    by (simp add: GetShader_def Map_get_def Map_values_def ShaderSource_PBR_def
          PerFrameBinding_def PerModelBinding_def constructor_calls_def)
qed

lemma renderer0_fields:
  "current_shader renderer0 = None" "current_material renderer0 = None"
  "current_vertex_buffer renderer0 = None" "current_index_buffer renderer0 = None"
  "normalview_matrix renderer0 = Some mat3_create"
  "uboPerModelBlock renderer0 = 11" "uboPerFrameBlock renderer0 = 10"
  "stats renderer0 = RendererStats_new"
  "gl renderer0 = constructor_calls 0"
  by (simp_all add: renderer0_def Renderer_constructor_eq module_loaded_def)

section \<open>Facts about draw\<close>

lemma gl_draw_bindings:
  "gl (draw_bindings index_buffer vertex_buffer mat this) =
     gl this
     @ (case mat of
          Some m \<Rightarrow> if Some (shader m) \<noteq> current_shader this then [Shader_use (shader m)] else []
        | None \<Rightarrow> [])
     @ (case mat of
          Some m \<Rightarrow> if Some (material_ref m) \<noteq> current_material this
                    then [Material_activate (material_ref m)] else []
        | None \<Rightarrow> [])
     @ (if Some vertex_buffer \<noteq> current_vertex_buffer this
        then [VertexBuffer_bindBuffers vertex_buffer] else [])
     @ (case index_buffer of
          Some ib \<Rightarrow> if Some (index_buffer_ref ib) \<noteq> current_index_buffer this
                     then [IndexBuffer_bind (index_buffer_ref ib)] else []
        | None \<Rightarrow> [])"
  by (cases mat; cases index_buffer) (simp_all add: draw_bindings_def Let_def)

lemma stats_draw_bindings:
  "stats (draw_bindings index_buffer vertex_buffer mat this) =
     (stats this)\<lparr>
       shader_bind_count :=
         (case mat of
            Some m \<Rightarrow> if Some (shader m) \<noteq> current_shader this
                      then shader_bind_count (stats this) + 1
                      else shader_bind_count (stats this)
          | None \<Rightarrow> shader_bind_count (stats this)),
       material_bind_count :=
         (case mat of
            Some m \<Rightarrow> if Some (material_ref m) \<noteq> current_material this
                      then material_bind_count (stats this) + 1
                      else material_bind_count (stats this)
          | None \<Rightarrow> material_bind_count (stats this)),
       vertex_buffer_bind_count :=
         (if Some vertex_buffer \<noteq> current_vertex_buffer this
          then vertex_buffer_bind_count (stats this) + 1
          else vertex_buffer_bind_count (stats this)),
       index_buffer_bind_count :=
         (case index_buffer of
            Some ib \<Rightarrow> if Some (index_buffer_ref ib) \<noteq> current_index_buffer this
                       then index_buffer_bind_count (stats this) + 1
                       else index_buffer_bind_count (stats this)
          | None \<Rightarrow> index_buffer_bind_count (stats this))\<rparr>"
  by (cases mat; cases index_buffer) (simp_all add: draw_bindings_def Let_def)

lemma current_draw_bindings:
  "current_shader (draw_bindings index_buffer vertex_buffer mat this) =
     (case mat of Some m \<Rightarrow> Some (shader m) | None \<Rightarrow> current_shader this)"
  "current_material (draw_bindings index_buffer vertex_buffer mat this) =
     (case mat of Some m \<Rightarrow> Some (material_ref m) | None \<Rightarrow> current_material this)"
  "current_vertex_buffer (draw_bindings index_buffer vertex_buffer mat this) = Some vertex_buffer"
  "current_index_buffer (draw_bindings index_buffer vertex_buffer mat this) =
     (case index_buffer of
        Some ib \<Rightarrow> Some (index_buffer_ref ib)
      | None \<Rightarrow> current_index_buffer this)"
  by (cases mat; cases index_buffer; simp add: draw_bindings_def Let_def)+

lemma viewport_draw_bindings:
  "viewport (draw_bindings index_buffer vertex_buffer mat this) = viewport this"
  by (cases mat; cases index_buffer) (simp_all add: draw_bindings_def Let_def)

lemma fst_draw:
  "fst (draw draw_mode count offset index_buffer vertex_buffer mat this) =
     (case index_buffer of
        Some ib \<Rightarrow> if BYTES_PER_ELEMENT ib = 2 \<or> BYTES_PER_ELEMENT ib = 4 then Inr ()
                   else Inl (Error ''Unknown index buffer type'')
      | None \<Rightarrow> Inr ())"
  by (cases index_buffer) (simp_all add: draw_def Let_def)

lemma gl_draw:
  "gl (snd (draw draw_mode count offset index_buffer vertex_buffer mat this)) =
     gl (draw_bindings index_buffer vertex_buffer mat this)
     @ (case index_buffer of
          Some ib \<Rightarrow>
            if BYTES_PER_ELEMENT ib = 2
            then [drawElements draw_mode count UNSIGNED_SHORT offset]
            else if BYTES_PER_ELEMENT ib = 4
            then [drawElements draw_mode count UNSIGNED_INT offset]
            else []
        | None \<Rightarrow> [drawArrays draw_mode offset count])"
  by (cases index_buffer) (simp_all add: draw_def Let_def)

lemma stats_draw:
  "stats (snd (draw draw_mode count offset index_buffer vertex_buffer mat this)) =
     (let s = stats (draw_bindings index_buffer vertex_buffer mat this)
      in case index_buffer of
           Some ib \<Rightarrow>
             if BYTES_PER_ELEMENT ib = 2 \<or> BYTES_PER_ELEMENT ib = 4
             then s\<lparr>index_draw_count := index_draw_count s + count,
                    draw_calls := draw_calls s + 1\<rparr>
             else s
         | None \<Rightarrow> s\<lparr>vertex_draw_count := vertex_draw_count s + count,
                       draw_calls := draw_calls s + 1\<rparr>)"
  by (cases index_buffer) (simp_all add: draw_def Let_def)

lemma current_draw:
  "current_shader (snd (draw draw_mode count offset index_buffer vertex_buffer mat this)) =
     current_shader (draw_bindings index_buffer vertex_buffer mat this)"
  "current_material (snd (draw draw_mode count offset index_buffer vertex_buffer mat this)) =
     current_material (draw_bindings index_buffer vertex_buffer mat this)"
  "current_vertex_buffer (snd (draw draw_mode count offset index_buffer vertex_buffer mat this)) =
     current_vertex_buffer (draw_bindings index_buffer vertex_buffer mat this)"
  "current_index_buffer (snd (draw draw_mode count offset index_buffer vertex_buffer mat this)) =
     current_index_buffer (draw_bindings index_buffer vertex_buffer mat this)"
  by (cases index_buffer; simp add: draw_def Let_def)+

lemma viewport_draw:
  "viewport (snd (draw draw_mode count offset index_buffer vertex_buffer mat this)) = viewport this"
  by (cases index_buffer) (simp_all add: draw_def Let_def viewport_draw_bindings)

lemmas draw_simps = fst_draw gl_draw stats_draw current_draw gl_draw_bindings
  stats_draw_bindings current_draw_bindings

lemma renderer1_fields:
  "current_shader renderer1 = Some 3" "current_material renderer1 = Some 22"
  "current_vertex_buffer renderer1 = Some 21" "current_index_buffer renderer1 = Some 20"
  by (simp_all add: renderer1_def draw_simps example_material_def example_index_buffer_def)

text \<open>Sums of whole numbers of magnitude up to \<open>2 ^ 53\<close> are exact.\<close>

lemma double_add_int:
  assumes "\<bar>a + b\<bar> \<le> 2 ^ 53"
  shows "double_add (Finite (of_int a)) (Finite (of_int b)) = Finite (of_int (a + b))"
proof -
  have "\<bar>of_int (a + b) :: real\<bar> = of_int \<bar>a + b\<bar>"
    by (simp only: of_int_abs)
  also have "\<dots> \<le> of_int (2 ^ 53)"
    using assms by (simp only: of_int_le_iff)
  also have "\<dots> = (9007199254740992 :: real)"
    by simp
  finally have "round_double (of_int (a + b)) = Finite (of_int (a + b))"
    by (intro round_double_int) simp_all
  then show ?thesis
    by simp
qed


text \<open>
  The earlier \<^verbatim>\<open>draw\<close> skips the same bind calls and makes the same draw command.
\<close>

lemma draw_earlier_gl:
  "gl (snd (draw_earlier draw_mode count offset index_buffer vertex_buffer shader_arg this)) =
     gl this
     @ (if Some shader_arg \<noteq> current_shader this then [Shader_use shader_arg] else [])
     @ (if Some vertex_buffer \<noteq> current_vertex_buffer this
        then [VertexBuffer_bindBuffers vertex_buffer] else [])
     @ (case index_buffer of
          Some ib \<Rightarrow> if Some (index_buffer_ref ib) \<noteq> current_index_buffer this
                     then [IndexBuffer_bind (index_buffer_ref ib)] else []
        | None \<Rightarrow> [])
     @ (case index_buffer of
          Some ib \<Rightarrow>
            if BYTES_PER_ELEMENT ib = 2
            then [drawElements draw_mode count UNSIGNED_SHORT offset]
            else if BYTES_PER_ELEMENT ib = 4
            then [drawElements draw_mode count UNSIGNED_INT offset]
            else []
        | None \<Rightarrow> [drawArrays draw_mode offset count])"
  by (cases index_buffer) (simp_all add: draw_earlier_def Let_def)

lemma draw_earlier_result:
  "fst (draw_earlier draw_mode count offset index_buffer vertex_buffer shader_arg this) =
     (case index_buffer of
        Some ib \<Rightarrow> if BYTES_PER_ELEMENT ib = 2 \<or> BYTES_PER_ELEMENT ib = 4 then Inr ()
                   else Inl (Thrown ''Unknown index buffer type'')
      | None \<Rightarrow> Inr ())"
  by (cases index_buffer) (simp_all add: draw_earlier_def Let_def)

section \<open>Properties of draw\<close>

text \<open>
  Claim C1. A call of \<^verbatim>\<open>draw\<close> makes no redundant bind, whether it returns or throws:
  when a material is given and its shader is the tracked shader, no \<^verbatim>\<open>use\<close> is
  called and \<^verbatim>\<open>shader_bind_count\<close> keeps its value; when the material is the tracked
  material, no \<^verbatim>\<open>activate\<close> is called and \<^verbatim>\<open>material_bind_count\<close> keeps its value;
  when the vertex buffer is the tracked one, no \<^verbatim>\<open>bindBuffers\<close> is called and
  \<^verbatim>\<open>vertex_buffer_bind_count\<close> keeps its value; when an index buffer is given and is
  the tracked one, no \<^verbatim>\<open>bind\<close> is called and \<^verbatim>\<open>index_buffer_bind_count\<close> keeps its
  value.
\<close>

theorem draw_no_redundant_bind:
  assumes "draw draw_mode count offset index_buffer vertex_buffer mat this = (res, this')"
  shows "(\<forall>m. mat = Some m \<and> current_shader this = Some (shader m) \<longrightarrow>
            (\<forall>s. Shader_use s \<notin> set (issued this this')) \<and>
            shader_bind_count (stats this') = shader_bind_count (stats this)) \<and>
         (map_option material_ref mat = current_material this \<longrightarrow>
            (\<forall>m. Material_activate m \<notin> set (issued this this')) \<and>
            material_bind_count (stats this') = material_bind_count (stats this)) \<and>
         (current_vertex_buffer this = Some vertex_buffer \<longrightarrow>
            (\<forall>v. VertexBuffer_bindBuffers v \<notin> set (issued this this')) \<and>
            vertex_buffer_bind_count (stats this') = vertex_buffer_bind_count (stats this)) \<and>
         (\<forall>ib. index_buffer = Some ib \<and>
               current_index_buffer this = Some (index_buffer_ref ib) \<longrightarrow>
            (\<forall>i. IndexBuffer_bind i \<notin> set (issued this this')) \<and>
            index_buffer_bind_count (stats this') = index_buffer_bind_count (stats this))"
proof -
  have this': "this' = snd (draw draw_mode count offset index_buffer vertex_buffer mat this)"
    using assms by simp
  show ?thesis
    unfolding this' issued_def
    by (cases mat; cases index_buffer) (simp_all add: draw_simps Let_def)
qed

text \<open>
  A second draw with the arguments of the first finds every binding in place.
\<close>

theorem draw_no_redundant_bind_witness:
  "current_shader renderer1 = Some (shader example_material) \<and>
   map_option material_ref (Some example_material) = current_material renderer1 \<and>
   current_vertex_buffer renderer1 = Some 21 \<and>
   current_index_buffer renderer1 = Some (index_buffer_ref example_index_buffer) \<and>
   (\<forall>s. Shader_use s \<notin> set (issued renderer1
      (snd (draw (Finite 4) (Finite 36) 0 (Some example_index_buffer) 21 (Some example_material) renderer1)))) \<and>
   shader_bind_count (stats
      (snd (draw (Finite 4) (Finite 36) 0 (Some example_index_buffer) 21 (Some example_material) renderer1))) =
     shader_bind_count (stats renderer1) \<and>
   (\<forall>i. IndexBuffer_bind i \<notin> set (issued renderer1
      (snd (draw (Finite 4) (Finite 36) 0 (Some example_index_buffer) 21 (Some example_material) renderer1))))"
  using draw_no_redundant_bind
    [of "Finite 4" "Finite 36" 0 "Some example_index_buffer" 21 "Some example_material" renderer1
      "fst (draw (Finite 4) (Finite 36) 0 (Some example_index_buffer) 21 (Some example_material) renderer1)"
      "snd (draw (Finite 4) (Finite 36) 0 (Some example_index_buffer) 21 (Some example_material) renderer1)"]
  by (simp add: renderer1_fields example_material_def example_index_buffer_def)

text \<open>
  Claim C2. After a call of \<^verbatim>\<open>draw\<close> that returns, the tracked vertex buffer is the
  argument; the tracked index buffer is the argument when one is given and is unchanged
  otherwise; the tracked shader and material are the material's shader and the material
  when one is given and are unchanged otherwise.
\<close>

theorem draw_tracks_arguments:
  assumes "draw draw_mode count offset index_buffer vertex_buffer mat this = (Inr (), this')"
  shows "current_vertex_buffer this' = Some vertex_buffer \<and>
         (case index_buffer of
            Some ib \<Rightarrow> current_index_buffer this' = Some (index_buffer_ref ib)
          | None \<Rightarrow> current_index_buffer this' = current_index_buffer this) \<and>
         (case mat of
            Some m \<Rightarrow> current_shader this' = Some (shader m) \<and>
                      current_material this' = Some (material_ref m)
          | None \<Rightarrow> current_shader this' = current_shader this \<and>
                    current_material this' = current_material this)"
proof -
  have this': "this' = snd (draw draw_mode count offset index_buffer vertex_buffer mat this)"
    using assms by simp
  show ?thesis
    unfolding this'
    by (cases mat; cases index_buffer) (simp_all add: draw_simps)
qed

theorem draw_tracks_arguments_witness:
  "draw (Finite 4) (Finite 36) 0 (Some example_index_buffer) 21 (Some example_material) renderer0 =
     (Inr (), renderer1) \<and>
   current_vertex_buffer renderer1 = Some 21 \<and>
   current_index_buffer renderer1 = Some 20 \<and>
   current_shader renderer1 = Some 3 \<and>
   current_material renderer1 = Some 22"
proof -
  have h: "draw (Finite 4) (Finite 36) 0 (Some example_index_buffer) 21 (Some example_material) renderer0 =
             (Inr (), renderer1)"
    by (simp add: renderer1_def prod_eq_iff fst_draw example_index_buffer_def)
  show ?thesis
    using h draw_tracks_arguments [OF h]
    by (simp add: example_material_def example_index_buffer_def)
qed

text \<open>
  Claim C3, as amended. A call of \<^verbatim>\<open>draw\<close> that returns makes exactly one draw
  command: with an index buffer of two-byte elements \<^verbatim>\<open>drawElements\<close> with type
  \<^verbatim>\<open>UNSIGNED_SHORT\<close>, with four-byte elements \<^verbatim>\<open>drawElements\<close> with type
  \<^verbatim>\<open>UNSIGNED_INT\<close>, and without an index buffer \<^verbatim>\<open>drawArrays\<close> with the mode, the
  offset and the count. It then adds one to \<^verbatim>\<open>draw_calls\<close> and the count to
  \<^verbatim>\<open>index_draw_count\<close> or to \<^verbatim>\<open>vertex_draw_count\<close>, both by the addition of
  doubles: \<^verbatim>\<open>draw_calls\<close> goes up by exactly one while it is a whole number below
  \<open>2 ^ 53\<close>, and the count is added exactly while the counter and the count are whole
  numbers and their sum has magnitude at most \<open>2 ^ 53\<close>. With an index buffer of any
  other element size the call throws the error \<^verbatim>\<open>Unknown index buffer type\<close>.
\<close>

theorem draw_dispatches_one_command:
  assumes "draw draw_mode count offset index_buffer vertex_buffer mat this = (res, this')"
  shows "(case index_buffer of
            Some ib \<Rightarrow>
              if BYTES_PER_ELEMENT ib = 2
              then res = Inr () \<and>
                   filter is_draw_command (issued this this') =
                     [drawElements draw_mode count UNSIGNED_SHORT offset] \<and>
                   draw_calls (stats this') = double_add (draw_calls (stats this)) (Finite 1) \<and>
                   index_draw_count (stats this') =
                     double_add (index_draw_count (stats this)) count \<and>
                   vertex_draw_count (stats this') = vertex_draw_count (stats this)
              else if BYTES_PER_ELEMENT ib = 4
              then res = Inr () \<and>
                   filter is_draw_command (issued this this') =
                     [drawElements draw_mode count UNSIGNED_INT offset] \<and>
                   draw_calls (stats this') = double_add (draw_calls (stats this)) (Finite 1) \<and>
                   index_draw_count (stats this') =
                     double_add (index_draw_count (stats this)) count \<and>
                   vertex_draw_count (stats this') = vertex_draw_count (stats this)
              else res = Inl (Error ''Unknown index buffer type'')
          | None \<Rightarrow>
              res = Inr () \<and>
              filter is_draw_command (issued this this') = [drawArrays draw_mode offset count] \<and>
              draw_calls (stats this') = double_add (draw_calls (stats this)) (Finite 1) \<and>
              vertex_draw_count (stats this') =
                double_add (vertex_draw_count (stats this)) count \<and>
              index_draw_count (stats this') = index_draw_count (stats this)) \<and>
         (\<forall>n. res = Inr () \<and> draw_calls (stats this) = Finite (of_int n) \<and>
              0 \<le> n \<and> n < 2 ^ 53 \<longrightarrow>
            draw_calls (stats this') = Finite (of_int (n + 1))) \<and>
         (\<forall>a b. res = Inr () \<and> index_buffer \<noteq> None \<and>
                index_draw_count (stats this) = Finite (of_int a) \<and>
                count = Finite (of_int b) \<and> \<bar>a + b\<bar> \<le> 2 ^ 53 \<longrightarrow>
            index_draw_count (stats this') = Finite (of_int (a + b))) \<and>
         (\<forall>a b. index_buffer = None \<and>
                vertex_draw_count (stats this) = Finite (of_int a) \<and>
                count = Finite (of_int b) \<and> \<bar>a + b\<bar> \<le> 2 ^ 53 \<longrightarrow>
            vertex_draw_count (stats this') = Finite (of_int (a + b)))"
proof -
  have res: "res = fst (draw draw_mode count offset index_buffer vertex_buffer mat this)"
    and this': "this' = snd (draw draw_mode count offset index_buffer vertex_buffer mat this)"
    using assms by simp_all
  have main:
    "(case index_buffer of
        Some ib \<Rightarrow>
          if BYTES_PER_ELEMENT ib = 2
          then res = Inr () \<and>
               filter is_draw_command (issued this this') =
                 [drawElements draw_mode count UNSIGNED_SHORT offset] \<and>
               draw_calls (stats this') = double_add (draw_calls (stats this)) (Finite 1) \<and>
               index_draw_count (stats this') =
                 double_add (index_draw_count (stats this)) count \<and>
               vertex_draw_count (stats this') = vertex_draw_count (stats this)
          else if BYTES_PER_ELEMENT ib = 4
          then res = Inr () \<and>
               filter is_draw_command (issued this this') =
                 [drawElements draw_mode count UNSIGNED_INT offset] \<and>
               draw_calls (stats this') = double_add (draw_calls (stats this)) (Finite 1) \<and>
               index_draw_count (stats this') =
                 double_add (index_draw_count (stats this)) count \<and>
               vertex_draw_count (stats this') = vertex_draw_count (stats this)
          else res = Inl (Error ''Unknown index buffer type'')
      | None \<Rightarrow>
          res = Inr () \<and>
          filter is_draw_command (issued this this') = [drawArrays draw_mode offset count] \<and>
          draw_calls (stats this') = double_add (draw_calls (stats this)) (Finite 1) \<and>
          vertex_draw_count (stats this') =
            double_add (vertex_draw_count (stats this)) count \<and>
          index_draw_count (stats this') = index_draw_count (stats this))"
    unfolding res this' issued_def
    by (cases mat; cases index_buffer)
       (simp_all add: draw_simps Let_def plus_number_def one_number_def
          del: double_add.simps)
  have calls: "draw_calls (stats this') = double_add (draw_calls (stats this)) (Finite 1)"
    if "res = Inr ()"
    using main that by (cases index_buffer) (auto split: if_splits)
  have indexed: "index_draw_count (stats this') =
                   double_add (index_draw_count (stats this)) count"
    if "res = Inr ()" and "index_buffer \<noteq> None"
    using main that by (cases index_buffer) (auto split: if_splits)
  have arrays: "vertex_draw_count (stats this') =
                  double_add (vertex_draw_count (stats this)) count"
    if "index_buffer = None"
    using main that by simp
  have one: "draw_calls (stats this') = Finite (of_int (n + 1))"
    if "res = Inr ()" and "draw_calls (stats this) = Finite (of_int n)"
      and "0 \<le> n" and "n < 2 ^ 53" for n
  proof -
    have "double_add (Finite (of_int n)) (Finite (of_int 1)) = Finite (of_int (n + 1))"
      using that(3,4) by (intro double_add_int) simp
    then show ?thesis
      using calls [OF that(1)] that(2) by simp
  qed
  have sum_indexed: "index_draw_count (stats this') = Finite (of_int (a + b))"
    if "res = Inr ()" and "index_buffer \<noteq> None"
      and "index_draw_count (stats this) = Finite (of_int a)"
      and "count = Finite (of_int b)" and "\<bar>a + b\<bar> \<le> 2 ^ 53" for a b
    using indexed [OF that(1,2)] double_add_int [OF that(5)] that(3,4) by simp
  have sum_arrays: "vertex_draw_count (stats this') = Finite (of_int (a + b))"
    if "index_buffer = None"
      and "vertex_draw_count (stats this) = Finite (of_int a)"
      and "count = Finite (of_int b)" and "\<bar>a + b\<bar> \<le> 2 ^ 53" for a b
    using arrays [OF that(1)] double_add_int [OF that(4)] that(2,3) by simp
  show ?thesis
    using main one sum_indexed sum_arrays by blast
qed

text \<open>One indexed draw of 36 indices on the new renderer.\<close>

theorem draw_dispatches_one_command_witness:
  "draw (Finite 4) (Finite 36) 0 (Some example_index_buffer) 21 (Some example_material)
     renderer0 = (Inr (), renderer1) \<and>
   draw_calls (stats renderer0) = Finite 0 \<and>
   index_draw_count (stats renderer0) = Finite 0 \<and>
   filter is_draw_command (issued renderer0 renderer1) =
     [drawElements (Finite 4) (Finite 36) UNSIGNED_SHORT 0] \<and>
   draw_calls (stats renderer1) = Finite 1 \<and>
   index_draw_count (stats renderer1) = Finite 36"
proof -
  have h: "draw (Finite 4) (Finite 36) 0 (Some example_index_buffer) 21
             (Some example_material) renderer0 = (Inr (), renderer1)"
    by (simp add: renderer1_def prod_eq_iff fst_draw example_index_buffer_def)
  have s: "draw_calls (stats renderer0) = Finite 0"
    "index_draw_count (stats renderer0) = Finite 0"
    by (simp_all add: renderer0_fields RendererStats_new_def zero_number_def)
  note t = draw_dispatches_one_command [OF h]
  have a: "filter is_draw_command (issued renderer0 renderer1) =
             [drawElements (Finite 4) (Finite 36) UNSIGNED_SHORT 0]"
    using t [THEN conjunct1] by (simp add: example_index_buffer_def)
  have b: "draw_calls (stats renderer1) = Finite 1"
    using t [THEN conjunct2, THEN conjunct1, rule_format, of 0] s by simp
  have c: "index_draw_count (stats renderer1) = Finite 36"
    using t [THEN conjunct2, THEN conjunct2, THEN conjunct1, rule_format, of 0 36] s by simp
  show ?thesis
    using h s a b c by simp
qed

text \<open>
  The claim as first stated fails when a counter has reached \<open>2 ^ 53\<close>: after a draw of
  \<open>2 ^ 53\<close> indices, a draw of one index returns and leaves \<^verbatim>\<open>index_draw_count\<close> at
  \<open>2 ^ 53\<close>.
\<close>

theorem draw_counter_counterexample:
  "index_draw_count (stats renderer_big) = Finite 9007199254740992 \<and>
   fst (draw (Finite 4) (Finite 1) 0 (Some example_index_buffer) 21
          (Some example_material) renderer_big) = Inr () \<and>
   index_draw_count (stats
     (snd (draw (Finite 4) (Finite 1) 0 (Some example_index_buffer) 21
             (Some example_material) renderer_big))) = Finite 9007199254740992"
proof -
  have big: "index_draw_count (stats renderer_big) = Finite 9007199254740992"
    by (simp add: renderer_big_def draw_simps renderer0_fields RendererStats_new_def
          example_index_buffer_def example_material_def number_ops round_double_int)
  show ?thesis
    by (simp add: big draw_simps example_index_buffer_def plus_number_def
          round_double_2_53_plus_1)
qed

text \<open>
  Claim C10. When \<^verbatim>\<open>draw\<close> is given an index buffer whose element size is neither two
  nor four bytes, it throws \<^verbatim>\<open>Unknown index buffer type\<close>, makes no draw command and
  leaves \<^verbatim>\<open>draw_calls\<close>, \<^verbatim>\<open>index_draw_count\<close> and \<^verbatim>\<open>vertex_draw_count\<close> as they
  were; the bindings made before the throw stay: the tracked vertex buffer, index
  buffer, shader and material are the arguments, and each binding that changed has had
  its bind call and its count.
\<close>

theorem draw_throw_keeps_bindings:
  assumes "index_buffer = Some ib"
    and "BYTES_PER_ELEMENT ib \<noteq> 2" and "BYTES_PER_ELEMENT ib \<noteq> 4"
    and "draw draw_mode count offset index_buffer vertex_buffer mat this = (res, this')"
  shows "res = Inl (Error ''Unknown index buffer type'') \<and>
         filter is_draw_command (issued this this') = [] \<and>
         draw_calls (stats this') = draw_calls (stats this) \<and>
         index_draw_count (stats this') = index_draw_count (stats this) \<and>
         vertex_draw_count (stats this') = vertex_draw_count (stats this) \<and>
         current_vertex_buffer this' = Some vertex_buffer \<and>
         current_index_buffer this' = Some (index_buffer_ref ib) \<and>
         (\<forall>m. mat = Some m \<longrightarrow>
            current_shader this' = Some (shader m) \<and>
            current_material this' = Some (material_ref m)) \<and>
         (\<forall>m. mat = Some m \<and> current_shader this \<noteq> Some (shader m) \<longrightarrow>
            Shader_use (shader m) \<in> set (issued this this') \<and>
            shader_bind_count (stats this') = shader_bind_count (stats this) + 1) \<and>
         (\<forall>m. mat = Some m \<and> current_material this \<noteq> Some (material_ref m) \<longrightarrow>
            Material_activate (material_ref m) \<in> set (issued this this') \<and>
            material_bind_count (stats this') = material_bind_count (stats this) + 1) \<and>
         (current_vertex_buffer this \<noteq> Some vertex_buffer \<longrightarrow>
            VertexBuffer_bindBuffers vertex_buffer \<in> set (issued this this') \<and>
            vertex_buffer_bind_count (stats this') =
              vertex_buffer_bind_count (stats this) + 1) \<and>
         (current_index_buffer this \<noteq> Some (index_buffer_ref ib) \<longrightarrow>
            IndexBuffer_bind (index_buffer_ref ib) \<in> set (issued this this') \<and>
            index_buffer_bind_count (stats this') = index_buffer_bind_count (stats this) + 1)"
proof -
  have res: "res = fst (draw draw_mode count offset (Some ib) vertex_buffer mat this)"
    and this': "this' = snd (draw draw_mode count offset (Some ib) vertex_buffer mat this)"
    using assms by simp_all
  show ?thesis
    unfolding res this' issued_def assms(1)
    using assms(2,3)
    by (cases mat) (auto simp add: draw_simps Let_def)
qed

text \<open>
  A one-byte index buffer on the new renderer: the call throws, and the vertex buffer
  is bound and counted all the same.
\<close>

theorem draw_throw_keeps_bindings_witness:
  "BYTES_PER_ELEMENT example_byte_index_buffer \<noteq> 2 \<and>
   BYTES_PER_ELEMENT example_byte_index_buffer \<noteq> 4 \<and>
   fst (draw (Finite 4) (Finite 36) 0 (Some example_byte_index_buffer) 21 (Some example_material) renderer0) =
     Inl (Error ''Unknown index buffer type'') \<and>
   current_vertex_buffer renderer0 = None \<and>
   current_vertex_buffer
     (snd (draw (Finite 4) (Finite 36) 0 (Some example_byte_index_buffer) 21 (Some example_material) renderer0)) =
     Some 21 \<and>
   vertex_buffer_bind_count (stats
     (snd (draw (Finite 4) (Finite 36) 0 (Some example_byte_index_buffer) 21 (Some example_material) renderer0))) =
     vertex_buffer_bind_count (stats renderer0) + 1 \<and>
   draw_calls (stats
     (snd (draw (Finite 4) (Finite 36) 0 (Some example_byte_index_buffer) 21 (Some example_material) renderer0))) =
     draw_calls (stats renderer0)"
proof -
  have h2: "BYTES_PER_ELEMENT example_byte_index_buffer \<noteq> 2"
    and h4: "BYTES_PER_ELEMENT example_byte_index_buffer \<noteq> 4"
    by (simp_all add: example_byte_index_buffer_def)
  show ?thesis
    using h2 h4
      draw_throw_keeps_bindings [OF refl h2 h4, of "Finite 4" "Finite 36" 0 21 "Some example_material" renderer0
        "fst (draw (Finite 4) (Finite 36) 0 (Some example_byte_index_buffer) 21 (Some example_material) renderer0)"
        "snd (draw (Finite 4) (Finite 36) 0 (Some example_byte_index_buffer) 21 (Some example_material) renderer0)"]
    by (simp add: renderer0_fields)
qed

section \<open>Properties of the viewport and of the statistics\<close>

lemma viewport_setPerFrameUniforms:
  "viewport (setPerFrameUniforms view proj this) = viewport this"
  by (cases "mat4_invert view") (simp_all add: setPerFrameUniforms_def resetStats_def Let_def)

lemma viewport_setPerModelUniforms:
  "viewport (snd (setPerModelUniforms model_matrix view_matrix proj_matrix this)) =
     viewport this"
  by (simp add: setPerModelUniforms_def Let_def split: sum.split option.split)

lemma viewport_invoke:
  "\<not> is_setViewport c \<Longrightarrow> viewport (invoke c this) = viewport this"
  by (cases c)
     (simp_all add: viewport_draw viewport_setPerFrameUniforms viewport_setPerModelUniforms
        resetViewport_def resetSaveBindings_def resetStats_def)

lemma viewport_invoke_all:
  "\<forall>c \<in> set cs. \<not> is_setViewport c \<Longrightarrow> viewport (invoke_all cs this) = viewport this"
  by (induction cs arbitrary: this) (simp_all add: viewport_invoke)

text \<open>
  Claim C7. \<^verbatim>\<open>setViewport(x, y, width, height)\<close> stores exactly these four numbers in
  the field \<^verbatim>\<open>viewport\<close> and calls \<^verbatim>\<open>gl.viewport\<close> with them; after any sequence of
  calls of the renderer's methods with no \<^verbatim>\<open>setViewport\<close> among them,
  \<^verbatim>\<open>resetViewport\<close> calls \<^verbatim>\<open>gl.viewport\<close> with the same four numbers.
\<close>

theorem setViewport_then_resetViewport:
  assumes "\<forall>c \<in> set cs. \<not> is_setViewport c"
  shows "viewport (setViewport x y width height this) =
           \<lparr>vp_x = x, vp_y = y, vp_width = width, vp_height = height\<rparr> \<and>
         issued this (setViewport x y width height this) = [gl_viewport x y width height] \<and>
         issued (invoke_all cs (setViewport x y width height this))
                (resetViewport (invoke_all cs (setViewport x y width height this))) =
           [gl_viewport x y width height]"
proof -
  have "viewport (invoke_all cs (setViewport x y width height this)) =
          \<lparr>vp_x = x, vp_y = y, vp_width = width, vp_height = height\<rparr>"
    using viewport_invoke_all [OF assms] by (simp add: setViewport_def)
  then show ?thesis
    by (simp add: issued_def resetViewport_def setViewport_def)
qed

theorem setViewport_then_resetViewport_witness:
  "\<not> is_setViewport (Call_draw (Finite 4) (Finite 36) 0 None 21 None) \<and>
   \<not> is_setViewport Call_resetStats \<and>
   issued (invoke_all [Call_draw (Finite 4) (Finite 36) 0 None 21 None, Call_resetStats]
             (setViewport 0 0 (Finite 800) (Finite 600) renderer0))
          (resetViewport (invoke_all [Call_draw (Finite 4) (Finite 36) 0 None 21 None, Call_resetStats]
             (setViewport 0 0 (Finite 800) (Finite 600) renderer0))) =
     [gl_viewport 0 0 (Finite 800) (Finite 600)]"
proof -
  have h: "\<forall>c \<in> set [Call_draw (Finite 4) (Finite 36) 0 None 21 None, Call_resetStats]. \<not> is_setViewport c"
    by simp
  show ?thesis
    using h setViewport_then_resetViewport [OF h, of 0 0 "Finite 800" "Finite 600" renderer0] by simp
qed

text \<open>
  Claim C8. \<^verbatim>\<open>resetStats\<close> zeroes every counter and sets the tracked shader and
  material to undefined; it leaves the tracked vertex buffer, the tracked index buffer
  and the viewport as they were. So does \<^verbatim>\<open>setPerFrameUniforms\<close>, which ends with
  \<^verbatim>\<open>resetStats\<close>: the shader and the material are forgotten, the two buffers are kept.
\<close>

theorem resetStats_forgets_shader_and_material:
  "stats (resetStats this) =
     \<lparr>shader_bind_count = 0, material_bind_count = 0, vertex_buffer_bind_count = 0,
      index_buffer_bind_count = 0, index_draw_count = 0, vertex_draw_count = 0,
      draw_calls = 0\<rparr> \<and>
   current_shader (resetStats this) = None \<and>
   current_material (resetStats this) = None \<and>
   current_vertex_buffer (resetStats this) = current_vertex_buffer this \<and>
   current_index_buffer (resetStats this) = current_index_buffer this \<and>
   viewport (resetStats this) = viewport this \<and>
   current_shader (setPerFrameUniforms view proj this) = None \<and>
   current_material (setPerFrameUniforms view proj this) = None \<and>
   current_vertex_buffer (setPerFrameUniforms view proj this) = current_vertex_buffer this \<and>
   current_index_buffer (setPerFrameUniforms view proj this) = current_index_buffer this"
  by (cases "mat4_invert view")
     (simp_all add: resetStats_def setPerFrameUniforms_def Let_def RendererStats_reset_def)

text \<open>After one draw, a new frame forgets the shader and keeps the vertex buffer.\<close>

theorem resetStats_forgets_shader_and_material_witness:
  "current_shader renderer1 = Some 3 \<and>
   current_shader (setPerFrameUniforms mat4_create mat4_create renderer1) = None \<and>
   current_vertex_buffer (setPerFrameUniforms mat4_create mat4_create renderer1) = Some 21 \<and>
   draw_calls (stats (resetStats renderer1)) = 0"
  using resetStats_forgets_shader_and_material [of renderer1 mat4_create mat4_create]
  by (simp add: renderer1_fields)

section \<open>Facts about the matrix functions\<close>

lemma mat4_invert_None: "mat4_invert a = None \<longleftrightarrow> falsy (mat4_determinant a)"
  by (cases a) (simp add: Let_def)

lemma mat4_invert_obtain:
  assumes "\<not> falsy (mat4_determinant a)"
  obtains b where "mat4_invert a = Some b"
  using assms mat4_invert_None [of a] by (cases "mat4_invert a") auto

text \<open>
  The normal matrix is the transpose of the upper left three-by-three part of what
  \<^verbatim>\<open>mat4.invert\<close> computes for the same matrix.
\<close>

lemma normalFromMat4_invert:
  "mat3_normalFromMat4 (Some out) a =
     Inr (map_option (\<lambda>i. mat3_transpose (mat3_fromMat4 i)) (mat4_invert a))"
  by (cases a) (simp add: Let_def)

lemma normalFromMat4_null:
  "mat3_normalFromMat4 out a = Inr None \<longleftrightarrow> falsy (mat4_determinant a)"
  by (cases a; cases out) (simp_all add: Let_def)

lemma normalFromMat4_TypeError:
  "\<not> falsy (mat4_determinant a) \<Longrightarrow> mat3_normalFromMat4 None a = Inl TypeError"
  by (cases a) (simp add: Let_def)

text \<open>An entry of a product of two matrices of whole numbers.\<close>

lemma dot4:
  assumes a: "whole k a1" "whole k a2" "whole k a3" "whole k a4"
    and b: "whole l b1" "whole l b2" "whole l b3" "whole l b4"
    and s: "4 * (l * k) < 16777216"
  shows "fround (b1 * a1 + b2 * a2 + b3 * a3 + b4 * a4) =
           Finite (the_real b1 * the_real a1 + the_real b2 * the_real a2 +
                   the_real b3 * the_real a3 + the_real b4 * the_real a4)"
    and "whole (4 * (l * k)) (fround (b1 * a1 + b2 * a2 + b3 * a3 + b4 * a4))"
proof -
  have "0 \<le> k" and "0 \<le> l"
    using a(1) b(1) by (auto dest: whole_nonneg)
  then have n: "0 \<le> l * k"
    by simp
  with s have s1: "l * k \<le> 9007199254740992" and s2: "l * k + l * k \<le> 9007199254740992"
    and s3: "l * k + l * k + l * k \<le> 9007199254740992"
    and s4: "l * k + l * k + l * k + l * k \<le> 9007199254740992"
    by linarith+
  note p1 = whole_mul [OF b(1) a(1) s1]
  note p2 = whole_mul [OF b(2) a(2) s1]
  note p3 = whole_mul [OF b(3) a(3) s1]
  note p4 = whole_mul [OF b(4) a(4) s1]
  note q2 = whole_add [OF p1(1) p2(1) s2]
  note q3 = whole_add [OF q2(1) p3(1) s3]
  note q4 = whole_add [OF q3(1) p4(1) s4]
  have w: "whole (4 * (l * k)) (b1 * a1 + b2 * a2 + b3 * a3 + b4 * a4)"
    using q4(1) by (rule whole_mono) simp
  have f: "fround (b1 * a1 + b2 * a2 + b3 * a3 + b4 * a4) = b1 * a1 + b2 * a2 + b3 * a3 + b4 * a4"
    using w s by (rule whole_fround)
  have v: "the_real (b1 * a1 + b2 * a2 + b3 * a3 + b4 * a4) =
             the_real b1 * the_real a1 + the_real b2 * the_real a2 +
             the_real b3 * the_real a3 + the_real b4 * the_real a4"
    by (simp only: q4(2) q3(2) q2(2) p1(2) p2(2) p3(2) p4(2))
  show "fround (b1 * a1 + b2 * a2 + b3 * a3 + b4 * a4) =
          Finite (the_real b1 * the_real a1 + the_real b2 * the_real a2 +
                  the_real b3 * the_real a3 + the_real b4 * the_real a4)"
    unfolding f v [symmetric] using w by (simp only: whole_the_real)
  show "whole (4 * (l * k)) (fround (b1 * a1 + b2 * a2 + b3 * a3 + b4 * a4))"
    unfolding f by (rule w)
qed

text \<open>
  The product of two matrices of whole numbers is computed without rounding when four
  times the product of the bounds on their entries is below \<open>2 ^ 24\<close>.
\<close>

lemma mat4_mul_whole:
  assumes "whole_matrix k a" and "whole_matrix l b" and "4 * (l * k) < 16777216"
  shows "mat4_mul a b = mat4_of (product4 (reals_of a) (reals_of b))"
    and "whole_matrix (4 * (l * k)) (mat4_mul a b)"
proof -
  obtain a00 a01 a02 a03 a10 a11 a12 a13 a20 a21 a22 a23 a30 a31 a32 a33
    where a: "a = Mat4 a00 a01 a02 a03 a10 a11 a12 a13 a20 a21 a22 a23 a30 a31 a32 a33"
    by (cases a)
  obtain b00 b01 b02 b03 b10 b11 b12 b13 b20 b21 b22 b23 b30 b31 b32 b33
    where b: "b = Mat4 b00 b01 b02 b03 b10 b11 b12 b13 b20 b21 b22 b23 b30 b31 b32 b33"
    by (cases b)
  note d = dot4 [where k = k and l = l, OF _ _ _ _ _ _ _ _ assms(3)]
  from assms(1,2)
  have w: "whole k a00" "whole k a01" "whole k a02" "whole k a03"
    "whole k a10" "whole k a11" "whole k a12" "whole k a13"
    "whole k a20" "whole k a21" "whole k a22" "whole k a23"
    "whole k a30" "whole k a31" "whole k a32" "whole k a33"
    "whole l b00" "whole l b01" "whole l b02" "whole l b03"
    "whole l b10" "whole l b11" "whole l b12" "whole l b13"
    "whole l b20" "whole l b21" "whole l b22" "whole l b23"
    "whole l b30" "whole l b31" "whole l b32" "whole l b33"
    by (simp_all add: a b whole_matrix_def)
  show "mat4_mul a b = mat4_of (product4 (reals_of a) (reals_of b))"
    unfolding a b by (simp add: d(1) w mat4_of_def reals_of_def)
  show "whole_matrix (4 * (l * k)) (mat4_mul a b)"
    unfolding a b by (simp add: d(2) w whole_matrix_def)
qed

text \<open>Determinants and inverses of matrices of real numbers.\<close>

lemma determinant4_product4:
  "determinant4 (product4 a b) = determinant4 a * determinant4 b"
proof -
  obtain a00 a01 a02 a03 a10 a11 a12 a13 a20 a21 a22 a23 a30 a31 a32 a33
    where a: "a = Mat4 a00 a01 a02 a03 a10 a11 a12 a13 a20 a21 a22 a23 a30 a31 a32 a33"
    by (cases a)
  obtain b00 b01 b02 b03 b10 b11 b12 b13 b20 b21 b22 b23 b30 b31 b32 b33
    where b: "b = Mat4 b00 b01 b02 b03 b10 b11 b12 b13 b20 b21 b22 b23 b30 b31 b32 b33"
    by (cases b)
  show ?thesis
    unfolding a b by (simp add: Let_def) algebra
qed

lemma determinant4_identity4: "determinant4 identity4 = 1"
  by (simp add: identity4_def)

lemma inverse_of_inverse4:
  assumes "determinant4 a \<noteq> 0"
  shows "inverse_of (inverse4 a) a"
proof -
  obtain a00 a01 a02 a03 a10 a11 a12 a13 a20 a21 a22 a23 a30 a31 a32 a33
    where a: "a = Mat4 a00 a01 a02 a03 a10 a11 a12 a13 a20 a21 a22 a23 a30 a31 a32 a33"
    by (cases a)
  show ?thesis
    using assms unfolding a inverse_of_def identity4_def
    apply (simp add: Let_def)
    apply (intro conjI)
    apply (simp_all add: divide_simps)
    apply algebra+
    done
qed

lemma invertible_iff: "(\<exists>b. inverse_of b a) \<longleftrightarrow> determinant4 a \<noteq> 0"
proof
  assume "\<exists>b. inverse_of b a"
  then obtain b where "product4 a b = identity4"
    unfolding inverse_of_def by blast
  then have "determinant4 a * determinant4 b = 1"
    using determinant4_product4 [of a b] determinant4_identity4 by simp
  then show "determinant4 a \<noteq> 0"
    by auto
next
  assume "determinant4 a \<noteq> 0"
  then show "\<exists>b. inverse_of b a"
    using inverse_of_inverse4 by blast
qed

text \<open>The determinant of a matrix of whole numbers is computed without rounding.\<close>

lemma minor2:
  assumes "whole k a" and "whole k b" and "whole k c" and "whole k d"
    and "2 * (k * k) \<le> 9007199254740992"
  shows "whole (2 * (k * k)) (a * b - c * d)"
    and "the_real (a * b - c * d) = the_real a * the_real b - the_real c * the_real d"
proof -
  have "0 \<le> k * k"
    by simp
  with assms(5) have s1: "k * k \<le> 9007199254740992" and s2: "k * k + k * k \<le> 9007199254740992"
    by linarith+
  note p = whole_mul [OF assms(1) assms(2) s1]
  note q = whole_mul [OF assms(3) assms(4) s1]
  note t = whole_sub [OF p(1) q(1) s2]
  show "whole (2 * (k * k)) (a * b - c * d)"
    using t(1) by (rule whole_mono) simp
  show "the_real (a * b - c * d) = the_real a * the_real b - the_real c * the_real d"
    by (simp only: t(2) p(2) q(2))
qed

lemma det6:
  assumes b: "whole m b00" "whole m b01" "whole m b02" "whole m b03" "whole m b04"
    "whole m b05" "whole m b06" "whole m b07" "whole m b08" "whole m b09" "whole m b10"
    "whole m b11"
    and s: "6 * (m * m) \<le> 9007199254740992"
  shows "whole (6 * (m * m))
           (b00 * b11 - b01 * b10 + b02 * b09 + b03 * b08 - b04 * b07 + b05 * b06)"
    and "the_real (b00 * b11 - b01 * b10 + b02 * b09 + b03 * b08 - b04 * b07 + b05 * b06) =
           the_real b00 * the_real b11 - the_real b01 * the_real b10 +
           the_real b02 * the_real b09 + the_real b03 * the_real b08 -
           the_real b04 * the_real b07 + the_real b05 * the_real b06"
proof -
  have "0 \<le> m * m"
    by simp
  with s have s1: "m * m \<le> 9007199254740992"
    and s2: "m * m + m * m \<le> 9007199254740992"
    and s3: "m * m + m * m + m * m \<le> 9007199254740992"
    and s4: "m * m + m * m + m * m + m * m \<le> 9007199254740992"
    and s5: "m * m + m * m + m * m + m * m + m * m \<le> 9007199254740992"
    and s6: "m * m + m * m + m * m + m * m + m * m + m * m \<le> 9007199254740992"
    by linarith+
  note p1 = whole_mul [OF b(1) b(12) s1]
  note p2 = whole_mul [OF b(2) b(11) s1]
  note p3 = whole_mul [OF b(3) b(10) s1]
  note p4 = whole_mul [OF b(4) b(9) s1]
  note p5 = whole_mul [OF b(5) b(8) s1]
  note p6 = whole_mul [OF b(6) b(7) s1]
  note q2 = whole_sub [OF p1(1) p2(1) s2]
  note q3 = whole_add [OF q2(1) p3(1) s3]
  note q4 = whole_add [OF q3(1) p4(1) s4]
  note q5 = whole_sub [OF q4(1) p5(1) s5]
  note q6 = whole_add [OF q5(1) p6(1) s6]
  show "whole (6 * (m * m))
          (b00 * b11 - b01 * b10 + b02 * b09 + b03 * b08 - b04 * b07 + b05 * b06)"
    using q6(1) by (rule whole_mono) simp
  show "the_real (b00 * b11 - b01 * b10 + b02 * b09 + b03 * b08 - b04 * b07 + b05 * b06) =
          the_real b00 * the_real b11 - the_real b01 * the_real b10 +
          the_real b02 * the_real b09 + the_real b03 * the_real b08 -
          the_real b04 * the_real b07 + the_real b05 * the_real b06"
    by (simp only: q6(2) q5(2) q4(2) q3(2) q2(2) p1(2) p2(2) p3(2) p4(2) p5(2) p6(2))
qed

lemma mat4_determinant_whole:
  assumes "whole_matrix k a"
    and s: "2 * (k * k) \<le> 9007199254740992"
    and t: "6 * (2 * (k * k) * (2 * (k * k))) \<le> 9007199254740992"
  shows "mat4_determinant a = Finite (determinant4 (reals_of a))"
proof -
  obtain a00 a01 a02 a03 a10 a11 a12 a13 a20 a21 a22 a23 a30 a31 a32 a33
    where a: "a = Mat4 a00 a01 a02 a03 a10 a11 a12 a13 a20 a21 a22 a23 a30 a31 a32 a33"
    by (cases a)
  from assms(1)
  have w: "whole k a00" "whole k a01" "whole k a02" "whole k a03"
    "whole k a10" "whole k a11" "whole k a12" "whole k a13"
    "whole k a20" "whole k a21" "whole k a22" "whole k a23"
    "whole k a30" "whole k a31" "whole k a32" "whole k a33"
    by (simp_all add: a whole_matrix_def)
  note b00 = minor2 [OF w(1) w(6) w(2) w(5) s]
  note b01 = minor2 [OF w(1) w(7) w(3) w(5) s]
  note b02 = minor2 [OF w(1) w(8) w(4) w(5) s]
  note b03 = minor2 [OF w(2) w(7) w(3) w(6) s]
  note b04 = minor2 [OF w(2) w(8) w(4) w(6) s]
  note b05 = minor2 [OF w(3) w(8) w(4) w(7) s]
  note b06 = minor2 [OF w(9) w(14) w(10) w(13) s]
  note b07 = minor2 [OF w(9) w(15) w(11) w(13) s]
  note b08 = minor2 [OF w(9) w(16) w(12) w(13) s]
  note b09 = minor2 [OF w(10) w(15) w(11) w(14) s]
  note b10 = minor2 [OF w(10) w(16) w(12) w(14) s]
  note b11 = minor2 [OF w(11) w(16) w(12) w(15) s]
  note d = det6 [OF b00(1) b01(1) b02(1) b03(1) b04(1) b05(1) b06(1) b07(1) b08(1) b09(1)
    b10(1) b11(1) t]
  have "mat4_determinant a = Finite (the_real (mat4_determinant a))"
    unfolding a using d(1) by (simp add: Let_def whole_the_real)
  also have "the_real (mat4_determinant a) = determinant4 (reals_of a)"
    unfolding a
    by (simp add: Let_def reals_of_def d(2) b00(2) b01(2) b02(2) b03(2) b04(2) b05(2)
          b06(2) b07(2) b08(2) b09(2) b10(2) b11(2))
  finally show ?thesis .
qed




lemma reals_of_mat4_of: "reals_of (mat4_of a) = a"
  by (cases a) (simp add: reals_of_def mat4_of_def)




text \<open>
  The model-view matrix of a model and a view of whole numbers of magnitude at most
  32 is their product, and its determinant is computed without rounding.
\<close>

lemma modelview_whole:
  assumes "whole_matrix 32 model_matrix" and "whole_matrix 32 view_matrix"
  shows "mat4_mul view_matrix model_matrix =
           mat4_of (product4 (reals_of view_matrix) (reals_of model_matrix))"
    and "mat4_determinant (mat4_mul view_matrix model_matrix) =
           Finite (determinant4 (product4 (reals_of view_matrix) (reals_of model_matrix)))"
    and "whole_matrix 4096 (mat4_mul view_matrix model_matrix)"
proof -
  have s: "4 * (32 * 32) < (16777216::real)"
    by simp
  note m = mat4_mul_whole [OF assms(2) assms(1) s]
  show e: "mat4_mul view_matrix model_matrix =
             mat4_of (product4 (reals_of view_matrix) (reals_of model_matrix))"
    by (rule m(1))
  show w: "whole_matrix 4096 (mat4_mul view_matrix model_matrix)"
    using m(2) by simp
  have "mat4_determinant (mat4_mul view_matrix model_matrix) =
          Finite (determinant4 (reals_of (mat4_mul view_matrix model_matrix)))"
    using w by (rule mat4_determinant_whole) simp_all
  then show "mat4_determinant (mat4_mul view_matrix model_matrix) =
          Finite (determinant4 (product4 (reals_of view_matrix) (reals_of model_matrix)))"
    by (simp add: e reals_of_mat4_of)
qed

text \<open>The matrix functions at the example matrices.\<close>

lemmas evaluation =
  mat4_of_def mat3_of_def mat4_create_def mat3_create_def number_ops rounding Let_def
  falsy_def

lemma mat4_create_of: "mat4_create = mat4_of identity4"
  by (simp add: evaluation identity4_def)











lemma mul_scale_thin:
  "mat4_mul mat4_create (mat4_of scale_thin) =
     mat4_of (Mat4 0 0 0 0  0 1 0 0  0 0 1 0  0 0 0 1)"
  by (simp add: evaluation scale_thin_def)

lemma determinant_thin_stored:
  "mat4_determinant (mat4_of (Mat4 0 0 0 0  0 1 0 0  0 0 1 0  0 0 0 1)) = Finite 0"
  by (simp add: evaluation)



lemma mul_flat: "mat4_mul mat4_create (mat4_of mat4_flat) = mat4_of mat4_flat"
  by (simp add: evaluation mat4_flat_def)

lemma determinant_flat: "mat4_determinant (mat4_of mat4_flat) = Finite 0"
  by (simp add: evaluation mat4_flat_def)

lemma mul_view_flat:
  "mat4_mul (mat4_of example_view) (mat4_of mat4_flat) =
     mat4_of (Mat4 0 1 0 0  (- 1) 0 0 0  0 0 0 0  0 0 (- 5) 1)"
  by (simp add: evaluation example_view_def mat4_flat_def)

lemma determinant_view_flat:
  "mat4_determinant (mat4_of (Mat4 0 1 0 0  (- 1) 0 0 0  0 0 0 0  0 0 (- 5) 1)) = Finite 0"
  by (simp add: evaluation)




lemma inverse_of_scale_thin: "inverse_of scale_thin_inverse scale_thin"
  by (simp add: inverse_of_def scale_thin_def scale_thin_inverse_def identity4_def pow2_def)

section \<open>Properties of the uniform blocks\<close>


text \<open>The three ways in which \<^verbatim>\<open>setPerModelUniforms\<close> ends.\<close>

lemma setPerModelUniforms_thrown:
  assumes "falsy (mat4_determinant (mat4_mul view_matrix model_matrix))"
  shows "setPerModelUniforms model_matrix view_matrix proj_matrix this =
     (Inl (Error ''Determinant could not be calculated for normalview_matrix''),
      this\<lparr>modelview_matrix := mat4_mul view_matrix model_matrix,
           normalview_matrix := None,
           gl := gl this @
             [UniformBuffer_set (uboPerModelBlock this) ''model'' (UMat4 model_matrix),
              UniformBuffer_set (uboPerModelBlock this) ''model_view''
                (UMat4 (mat4_mul view_matrix model_matrix))]\<rparr>)"
proof -
  have "mat3_normalFromMat4 (normalview_matrix this) (mat4_mul view_matrix model_matrix) =
          Inr None"
    using assms by (simp add: normalFromMat4_null)
  then show ?thesis
    by (simp add: setPerModelUniforms_def Let_def)
qed

lemma setPerModelUniforms_returned:
  assumes "mat4_invert (mat4_mul view_matrix model_matrix) = Some i"
    and "normalview_matrix this = Some out"
  shows "setPerModelUniforms model_matrix view_matrix proj_matrix this =
     (Inr (),
      this\<lparr>modelview_matrix := mat4_mul view_matrix model_matrix,
           normalview_matrix := Some (mat3_transpose (mat3_fromMat4 i)),
           mvp_matrix := mat4_mul proj_matrix (mat4_mul view_matrix model_matrix),
           gl := gl this @
             [UniformBuffer_set (uboPerModelBlock this) ''model'' (UMat4 model_matrix),
              UniformBuffer_set (uboPerModelBlock this) ''model_view''
                (UMat4 (mat4_mul view_matrix model_matrix)),
              UniformBuffer_set (uboPerModelBlock this) ''normal_view''
                (UMat3 (mat3_transpose (mat3_fromMat4 i))),
              UniformBuffer_set (uboPerModelBlock this) ''mvp''
                (UMat4 (mat4_mul proj_matrix (mat4_mul view_matrix model_matrix))),
              UniformBuffer_update (uboPerModelBlock this)]\<rparr>)"
proof -
  have "mat3_normalFromMat4 (normalview_matrix this) (mat4_mul view_matrix model_matrix) =
          Inr (Some (mat3_transpose (mat3_fromMat4 i)))"
    using assms by (simp add: normalFromMat4_invert)
  then show ?thesis
    by (simp add: setPerModelUniforms_def Let_def)
qed

lemma setPerModelUniforms_TypeError:
  assumes "\<not> falsy (mat4_determinant (mat4_mul view_matrix model_matrix))"
    and "normalview_matrix this = None"
  shows "setPerModelUniforms model_matrix view_matrix proj_matrix this =
     (Inl TypeError,
      this\<lparr>modelview_matrix := mat4_mul view_matrix model_matrix,
           gl := gl this @
             [UniformBuffer_set (uboPerModelBlock this) ''model'' (UMat4 model_matrix),
              UniformBuffer_set (uboPerModelBlock this) ''model_view''
                (UMat4 (mat4_mul view_matrix model_matrix))]\<rparr>)"
proof -
  have "mat3_normalFromMat4 None (mat4_mul view_matrix model_matrix) = Inl TypeError"
    using assms(1) by (rule normalFromMat4_TypeError)
  then show ?thesis
    using assms(2) by (simp add: setPerModelUniforms_def Let_def)
qed







text \<open>
  Claim C9, as amended. \<^verbatim>\<open>setPerModelUniforms\<close> throws the error
  \<^verbatim>\<open>Determinant could not be calculated for normalview_matrix\<close> exactly when
  \<^verbatim>\<open>mat3.normalFromMat4\<close> returns \<^verbatim>\<open>null\<close> for the stored product of view and model,
  which is exactly when the determinant that it computes of that matrix, in doubles, is
  zero or NaN; the call has then set \<^verbatim>\<open>model\<close> and \<^verbatim>\<open>model_view\<close> in the per-model
  block and has made no other call: neither \<^verbatim>\<open>normal_view\<close> nor \<^verbatim>\<open>mvp\<close> is set and
  the block is not updated. When the entries of model and view are whole numbers of
  magnitude at most 32, the call throws this error exactly when the product of view
  and model has no inverse.
\<close>

theorem setPerModelUniforms_throws_iff_null:
  "(fst (setPerModelUniforms model_matrix view_matrix proj_matrix this) =
      Inl (Error ''Determinant could not be calculated for normalview_matrix'') \<longleftrightarrow>
    mat3_normalFromMat4 (normalview_matrix this) (mat4_mul view_matrix model_matrix) =
      Inr None) \<and>
   (mat3_normalFromMat4 (normalview_matrix this) (mat4_mul view_matrix model_matrix) =
      Inr None \<longleftrightarrow>
    falsy (mat4_determinant (mat4_mul view_matrix model_matrix))) \<and>
   (fst (setPerModelUniforms model_matrix view_matrix proj_matrix this) =
      Inl (Error ''Determinant could not be calculated for normalview_matrix'') \<longrightarrow>
    issued this (snd (setPerModelUniforms model_matrix view_matrix proj_matrix this)) =
      [UniformBuffer_set (uboPerModelBlock this) ''model'' (UMat4 model_matrix),
       UniformBuffer_set (uboPerModelBlock this) ''model_view''
         (UMat4 (mat4_mul view_matrix model_matrix))]) \<and>
   (whole_matrix 32 model_matrix \<and> whole_matrix 32 view_matrix \<longrightarrow>
      (fst (setPerModelUniforms model_matrix view_matrix proj_matrix this) =
         Inl (Error ''Determinant could not be calculated for normalview_matrix'') \<longleftrightarrow>
       \<not> (\<exists>b. inverse_of b (product4 (reals_of view_matrix) (reals_of model_matrix)))))"
proof -
  have thrown:
    "fst (setPerModelUniforms model_matrix view_matrix proj_matrix this) =
       Inl (Error ''Determinant could not be calculated for normalview_matrix'') \<longleftrightarrow>
     falsy (mat4_determinant (mat4_mul view_matrix model_matrix))"
  proof (cases "falsy (mat4_determinant (mat4_mul view_matrix model_matrix))")
    case True
    then show ?thesis
      by (simp add: setPerModelUniforms_thrown)
  next
    case False
    then obtain i where inv: "mat4_invert (mat4_mul view_matrix model_matrix) = Some i"
      by (rule mat4_invert_obtain)
    show ?thesis
    proof (cases "normalview_matrix this")
      case None
      with False show ?thesis
        by (simp add: setPerModelUniforms_TypeError)
    next
      case (Some out)
      with False show ?thesis
        by (simp add: setPerModelUniforms_returned [OF inv Some])
    qed
  qed
  have null:
    "mat3_normalFromMat4 (normalview_matrix this) (mat4_mul view_matrix model_matrix) =
       Inr None \<longleftrightarrow>
     falsy (mat4_determinant (mat4_mul view_matrix model_matrix))"
    by (rule normalFromMat4_null)
  have calls:
    "issued this (snd (setPerModelUniforms model_matrix view_matrix proj_matrix this)) =
       [UniformBuffer_set (uboPerModelBlock this) ''model'' (UMat4 model_matrix),
        UniformBuffer_set (uboPerModelBlock this) ''model_view''
          (UMat4 (mat4_mul view_matrix model_matrix))]"
    if "falsy (mat4_determinant (mat4_mul view_matrix model_matrix))"
    using that by (simp add: setPerModelUniforms_thrown issued_def)
  have singular:
    "falsy (mat4_determinant (mat4_mul view_matrix model_matrix)) \<longleftrightarrow>
     \<not> (\<exists>b. inverse_of b (product4 (reals_of view_matrix) (reals_of model_matrix)))"
    if m: "whole_matrix 32 model_matrix" and v: "whole_matrix 32 view_matrix"
    by (simp add: modelview_whole(2) [OF m v] falsy_def invertible_iff)
  show ?thesis
    using thrown null calls singular by blast
qed

text \<open>
  A model that flattens space onto a plane, under a view that turns and moves: the
  product is the view with its third column zero, and has no inverse.
\<close>

theorem setPerModelUniforms_throws_iff_null_witness:
  "fst (setPerModelUniforms (mat4_of mat4_flat) (mat4_of example_view)
          (mat4_of example_proj) renderer0) =
     Inl (Error ''Determinant could not be calculated for normalview_matrix'') \<and>
   falsy (mat4_determinant (mat4_mul (mat4_of example_view) (mat4_of mat4_flat))) \<and>
   issued renderer0
     (snd (setPerModelUniforms (mat4_of mat4_flat) (mat4_of example_view)
             (mat4_of example_proj) renderer0)) =
     [UniformBuffer_set 11 ''model'' (UMat4 (mat4_of mat4_flat)),
      UniformBuffer_set 11 ''model_view''
        (UMat4 (mat4_of (Mat4 0 1 0 0  (- 1) 0 0 0  0 0 0 0  0 0 (- 5) 1)))] \<and>
   whole_matrix 32 (mat4_of mat4_flat) \<and> whole_matrix 32 (mat4_of example_view) \<and>
   determinant4 (product4 example_view mat4_flat) = 0 \<and>
   \<not> (\<exists>b. inverse_of b (product4 example_view mat4_flat))"
proof -
  have f: "falsy (mat4_determinant (mat4_mul (mat4_of example_view) (mat4_of mat4_flat)))"
    by (simp add: mul_view_flat determinant_view_flat falsy_def)
  have w: "whole_matrix 32 (mat4_of mat4_flat)" "whole_matrix 32 (mat4_of example_view)"
    by (simp_all add: whole_matrix_def mat4_of_def mat4_flat_def example_view_def)
  have z: "determinant4 (product4 example_view mat4_flat) = 0"
    by (simp add: example_view_def mat4_flat_def)
  show ?thesis
    using f w z
      setPerModelUniforms_throws_iff_null
        [of "mat4_of mat4_flat" "mat4_of example_view" "mat4_of example_proj" renderer0]
    by (simp add: mul_view_flat renderer0_fields reals_of_mat4_of) blast
qed

text \<open>
  The claim as first stated fails for a model that scales one axis by \<open>2 ^ - 200\<close>,
  under the identity as view: the product is invertible, but its first entry is stored
  as zero in single precision, the determinant computed of the stored matrix is zero,
  and the call throws.
\<close>

theorem setPerModelUniforms_throws_counterexample:
  "product4 identity4 scale_thin = scale_thin \<and>
   inverse_of scale_thin_inverse scale_thin \<and>
   fst (setPerModelUniforms (mat4_of scale_thin) mat4_create mat4_create renderer0) =
     Inl (Error ''Determinant could not be calculated for normalview_matrix'') \<and>
   issued renderer0
     (snd (setPerModelUniforms (mat4_of scale_thin) mat4_create mat4_create renderer0)) =
     [UniformBuffer_set 11 ''model'' (UMat4 (mat4_of scale_thin)),
      UniformBuffer_set 11 ''model_view''
        (UMat4 (mat4_of (Mat4 0 0 0 0  0 1 0 0  0 0 1 0  0 0 0 1)))]"
proof -
  have z: "falsy (mat4_determinant (mat4_mul mat4_create (mat4_of scale_thin)))"
    by (simp add: mul_scale_thin determinant_thin_stored falsy_def)
  have e: "product4 identity4 scale_thin = scale_thin"
    by (simp add: identity4_def scale_thin_def)
  show ?thesis
    using e inverse_of_scale_thin
    by (simp add: setPerModelUniforms_thrown [OF z] issued_def renderer0_fields
          mul_scale_thin)
qed

section \<open>Properties of the constructor\<close>

text \<open>
  Claim C6. After the constructor, \<^verbatim>\<open>GetShader\<close> returns, for the name of every entry
  of \<^verbatim>\<open>ShaderSources\<close>, a shader that the constructor has built from the vertex and
  fragment text of the entry, by the subclass of the entry when it has one and by the
  class \<^verbatim>\<open>Shader\<close> otherwise; \<^verbatim>\<open>EMPTY_TEXTURE\<close> and \<^verbatim>\<open>EMPTY_CUBE_TEXTURE\<close> hold
  textures that the constructor has made; the blocks \<^verbatim>\<open>ubo_per_frame\<close> and
  \<^verbatim>\<open>ubo_per_model\<close> are made from the PBR shader, are two different objects, and are
  bound, at the binding points 0 and 1, to every shader that the constructor has built.
\<close>

theorem constructor_sets_up_shaders_and_blocks:
  "(let this = Renderer_constructor gl0 p; made = drop (length gl0) (gl this)
    in (\<forall>s \<in> set ShaderSources.
          \<exists>sh. GetShader this (name s) = Some sh \<and>
               Shader_new sh (case shader_subclass s of Some c \<Rightarrow> c | None \<Rightarrow> ''Shader'')
                 (vert s) (frag s) \<in> set made) \<and>
       (\<exists>t. EMPTY_TEXTURE this = Some t \<and> Texture2D_new t \<in> set made) \<and>
       (\<exists>t. EMPTY_CUBE_TEXTURE this = Some t \<and> TextureCubeMap_new t \<in> set made) \<and>
       UniformBuffer_new (uboPerFrameBlock this) (GetShader this (name ShaderSource_PBR))
         ''ubo_per_frame'' \<in> set made \<and>
       UniformBuffer_new (uboPerModelBlock this) (GetShader this (name ShaderSource_PBR))
         ''ubo_per_model'' \<in> set made \<and>
       GetShader this (name ShaderSource_PBR) \<noteq> None \<and>
       uboPerFrameBlock this \<noteq> uboPerModelBlock this \<and>
       PerFrameBinding = 0 \<and> PerModelBinding = 1 \<and>
       (\<forall>sh c v f. Shader_new sh c v f \<in> set made \<longrightarrow>
          UniformBuffer_bindShader (uboPerFrameBlock this) sh PerFrameBinding \<in> set made \<and>
          UniformBuffer_bindShader (uboPerModelBlock this) sh PerModelBinding \<in> set made))"
  unfolding Let_def Renderer_constructor_eq
  by (simp add: GetShader_def Map_get_def ShaderSource_defs constructor_calls_def
        PerFrameBinding_def PerModelBinding_def)

theorem constructor_sets_up_shaders_and_blocks_witness:
  "ShaderSource_PBR \<in> set ShaderSources \<and>
   GetShader renderer0 ''PBRShader'' = Some 3 \<and>
   Shader_new 3 ''PBRShader'' ''standardVert'' ''pbrFrag'' \<in> set (gl renderer0) \<and>
   UniformBuffer_bindShader 10 3 0 \<in> set (gl renderer0) \<and>
   UniformBuffer_bindShader 11 3 1 \<in> set (gl renderer0)"
proof -
  have g: "GetShader renderer0 ''PBRShader'' = Some 3"
    by (simp add: renderer0_def Renderer_constructor_eq GetShader_def Map_get_def
          module_loaded_def)
  have s: "ShaderSource_PBR \<in> set ShaderSources"
    by (simp add: ShaderSources_def)
  have k: "Shader_new 3 ''PBRShader'' ''standardVert'' ''pbrFrag'' \<in> set (gl renderer0)"
    using constructor_sets_up_shaders_and_blocks [of "[]" module_loaded] s g
    by (auto simp add: Let_def renderer0_def ShaderSource_PBR_def dest!: bspec [OF _ s])
  show ?thesis
    using constructor_sets_up_shaders_and_blocks [of "[]" module_loaded] s g k
    by (simp add: Let_def renderer0_def [symmetric] renderer0_fields(6,7)
          PerFrameBinding_def PerModelBinding_def) blast
qed

end
